theory Spec2Isabelle
  imports Complex_Main
begin

text \<open>
  A model of the RHiD clock-in bot: the automator \<open>apps/rhid_runner/automator.py\<close> and
  the Discord front end \<open>apps/discord-bot/main.py\<close>. Functions keep their names, without
  the leading underscore of the private ones; a loop, and a stage of a long function, is a
  function of its own; an exception is the left summand of a result.
\<close>

section \<open>Python strings\<close>

text \<open>
  A Python \<open>str\<close> is a sequence of Unicode code points, and \<open>len\<close> and slicing count
  code points. Strings are therefore lists of code points; \<open>ascii\<close> turns an ASCII literal
  into one, and the accented letters and symbols of the messages are written as numbers.
\<close>

type_synonym pystr = "nat list"

definition ascii :: "string \<Rightarrow> pystr" where
  "ascii s = map of_char s"

text \<open>
  The characters \<open>str.split()\<close> and \<open>str.strip()\<close> treat as whitespace: the code
  points for which \<open>str.isspace\<close> holds.
\<close>

definition is_space :: "nat \<Rightarrow> bool" where
  "is_space c \<longleftrightarrow>
     (9 \<le> c \<and> c \<le> 13) \<or> (28 \<le> c \<and> c \<le> 32) \<or> c = 133 \<or> c = 160 \<or> c = 5760
     \<or> (8192 \<le> c \<and> c \<le> 8202) \<or> c = 8232 \<or> c = 8233 \<or> c = 8239 \<or> c = 8287
     \<or> c = 12288"

text \<open>\<open>s.split()\<close>: the maximal runs of non-whitespace, in order.\<close>

fun split_from :: "pystr \<Rightarrow> pystr \<Rightarrow> pystr list" where
  "split_from cur [] = (if cur = [] then [] else [cur])"
| "split_from cur (c # cs) =
     (if is_space c then (if cur = [] then [] else [cur]) @ split_from [] cs
      else split_from (cur @ [c]) cs)"

definition py_split :: "pystr \<Rightarrow> pystr list" where
  "py_split s = split_from [] s"

text \<open>\<open>sep.join(ws)\<close>.\<close>

fun py_join :: "pystr \<Rightarrow> pystr list \<Rightarrow> pystr" where
  "py_join sep [] = []"
| "py_join sep [w] = w"
| "py_join sep (w # v # ws) = w @ sep @ py_join sep (v # ws)"

text \<open>\<open>s.strip()\<close>.\<close>

definition py_strip :: "pystr \<Rightarrow> pystr" where
  "py_strip s = rev (dropWhile is_space (rev (dropWhile is_space s)))"

text \<open>\<open>str(n)\<close> for an integer: decimal digits, with a minus sign below zero.\<close>

fun digits :: "nat \<Rightarrow> pystr" where
  "digits n = (if n < 10 then [48 + n] else digits (n div 10) @ [48 + n mod 10])"

declare digits.simps [simp del]

definition str_int :: "int \<Rightarrow> pystr" where
  "str_int i = (if i < 0 then 45 # digits (nat (- i)) else digits (nat i))"

section \<open>Exceptions\<close>

text \<open>
  The exception classes the automator distinguishes. Each value carries the text that
  \<open>str(e)\<close> gives. Selenium's \<open>TimeoutException\<close> and \<open>SessionNotCreatedException\<close>
  are subclasses of \<open>WebDriverException\<close>; the constructor \<open>WebDriverException\<close> stands
  for every other Selenium error.
\<close>

datatype exn =
    SessionNotCreatedException pystr
  | WebDriverException pystr
  | TimeoutException pystr
  | RuntimeError pystr
  | AssertionError pystr
  | OtherException pystr

fun exn_str :: "exn \<Rightarrow> pystr" where
  "exn_str (SessionNotCreatedException m) = m"
| "exn_str (WebDriverException m) = m"
| "exn_str (TimeoutException m) = m"
| "exn_str (RuntimeError m) = m"
| "exn_str (AssertionError m) = m"
| "exn_str (OtherException m) = m"

fun is_WebDriverException :: "exn \<Rightarrow> bool" where
  "is_WebDriverException (SessionNotCreatedException m) = True"
| "is_WebDriverException (WebDriverException m) = True"
| "is_WebDriverException (TimeoutException m) = True"
| "is_WebDriverException e = False"

fun is_TimeoutException :: "exn \<Rightarrow> bool" where
  "is_TimeoutException (TimeoutException m) = True"
| "is_TimeoutException e = False"

section \<open>Configuration, environment and observable events\<close>

datatype By = ID | CSS_SELECTOR | XPATH

type_synonym locator = "By \<times> pystr"

text \<open>
  A directory made by \<open>tempfile.mkdtemp(prefix=..., dir=CHROME_USER_DATA_BASE)\<close>: its
  prefix and the unique suffix the system chose.
\<close>

datatype path = TmpDir pystr nat

text \<open>The module-level settings read from the process environment.\<close>

record config =
  RHID_EMAIL :: "pystr option"
  RHID_PASSWORD :: "pystr option"
  RHID_LOGIN_URL :: "pystr option"
  RHID_URL :: "pystr option"
  POST_LOGIN_SELECTOR :: pystr
  PUNCH_DRY_RUN :: bool
  SCREENSHOT_ON_ERROR :: bool
  RHID_USE_USER_DATA :: bool
  COMPANY_LAT :: "pystr option"
  COMPANY_LON :: "pystr option"
  RATE_LIMIT_SECONDS :: int

text \<open>
  What the program does to the outside world, in order: directories made and removed,
  browser launches and shutdown, pauses of the launch loop (in milliseconds), and the
  actions on the portal's pages.
\<close>

datatype event =
    Mkdtemp path
  | Rmtree path
  | ChromeLaunch nat "path list"
  | Sleep nat
  | Quit
  | Navigate pystr
  | TypeText locator pystr
  | LoginClick
  | DashClick
  | DashClickRetry
  | FinalClick nat
  | Screenshot

text \<open>
  The browser, the portal and the operating system are outside the program. A \<open>script\<close>
  fixes how they answer during one run: for each Selenium call of the flow, whether it
  returns (\<open>None\<close>) or raises (\<open>Some e\<close>); for each polling round of the final-button
  search that starts before the deadline, which locators are present; which directories
  refuse deletion; and the texts derived from the clock and the time zone
  (\<open>local_time_text\<close> parses an ISO timestamp and renders it in the bot's zone, or fails).
\<close>

record script =
  chrome_launch :: "nat \<Rightarrow> exn option"
  rm_blocked :: "path list"
  quit_result :: "exn option"
  page_get :: "exn option"
  dom_ready :: "exn option"
  marker_present :: bool
  visible :: "locator \<Rightarrow> exn option"
  type_result :: "locator \<Rightarrow> exn option"
  login_click :: "exn option"
  post_login_wait :: "exn option"
  dash_visible :: "locator \<Rightarrow> bool"
  dash_click :: "exn option"
  dash_retry :: "exn option"
  url_wait :: "exn option"
  final_rounds :: "(locator \<Rightarrow> bool) list"
  page_source :: "pystr option"
  enable_wait :: "exn option"
  click_main :: "exn option"
  fallback_presence :: "exn option"
  click_fallback :: "exn option"
  confirm_modal :: "exn option"
  confirm_text :: "exn option"
  now_human :: pystr
  took_text :: pystr
  utc_iso :: pystr
  local_time_text :: "pystr \<Rightarrow> pystr option"

text \<open>
  The state the automator changes: the temporary directories that exist under the base
  directory, the next fresh suffix, and the events so far.
\<close>

record world =
  existing :: "path list"
  next_suffix :: nat
  events :: "event list"

definition emit :: "event \<Rightarrow> world \<Rightarrow> world" where
  "emit e w = w\<lparr>events := events w @ [e]\<rparr>"

section \<open>Temporary directories\<close>

text \<open>
  \<open>_mktemp_under_base\<close>: the system makes a directory that did not exist, here the one
  with the next suffix; the call is taken to succeed.
\<close>

definition mktemp_under_base :: "pystr \<Rightarrow> world \<Rightarrow> path \<times> world" where
  "mktemp_under_base prefix w =
     (let p = TmpDir prefix (next_suffix w)
      in (p, w\<lparr>existing := existing w @ [p], next_suffix := Suc (next_suffix w),
               events := events w @ [Mkdtemp p]\<rparr>))"

text \<open>
  \<open>shutil.rmtree(d, ignore_errors=True)\<close> inside \<open>try\<close> ... \<open>except Exception: pass\<close>:
  the directory goes away unless the system refuses, and a refusal is not reported.
\<close>

definition rmtree :: "script \<Rightarrow> path \<Rightarrow> world \<Rightarrow> world" where
  "rmtree s d w =
     (let w1 = emit (Rmtree d) w
      in if d \<in> set (rm_blocked s) then w1
         else w1\<lparr>existing := removeAll d (existing w1)\<rparr>)"

fun cleanup_tmp_list :: "script \<Rightarrow> path list \<Rightarrow> world \<Rightarrow> world" where
  "cleanup_tmp_list s [] w = w"
| "cleanup_tmp_list s (d # ds) w = cleanup_tmp_list s ds (rmtree s d w)"

section \<open>Launching the browser\<close>

record driver =
  tmp_dirs :: "path list"

type_synonym dirs = "path \<times> path \<times> path option"

text \<open>The three allocations that open \<open>_build_driver\<close> and follow a failed launch.\<close>

definition alloc_dirs :: "config \<Rightarrow> world \<Rightarrow> dirs \<times> world" where
  "alloc_dirs c w =
     (let (data_path, w1) = mktemp_under_base (ascii ''data-'') w;
          (cache_dir, w2) = mktemp_under_base (ascii ''cache-'') w1
      in if RHID_USE_USER_DATA c
         then (let (user_data_dir, w3) = mktemp_under_base (ascii ''profile-'') w2
               in ((data_path, cache_dir, Some user_data_dir), w3))
         else ((data_path, cache_dir, None), w2))"

text \<open>\<open>[data_path, cache_dir] + ([user_data_dir] if user_data_dir else [])\<close>.\<close>

fun dirs_list :: "dirs \<Rightarrow> path list" where
  "dirs_list (data_path, cache_dir, None) = [data_path, cache_dir]"
| "dirs_list (data_path, cache_dir, Some user_data_dir) = [data_path, cache_dir, user_data_dir]"

text \<open>
  The loop \<open>for attempt in (1, 2)\<close> of \<open>_build_driver\<close>, over the attempts still to make.
  The body of the \<open>try\<close> (options, driver service, \<open>webdriver.Chrome\<close>) is one answer of
  the script. The empty list is the code after the loop: \<open>assert last_err is not None\<close>
  and \<open>raise last_err\<close>; the \<open>break\<close> of the second handler goes there directly.
\<close>

fun build_attempts ::
  "config \<Rightarrow> script \<Rightarrow> nat list \<Rightarrow> dirs \<Rightarrow> exn option \<Rightarrow> world \<Rightarrow> (exn + driver) \<times> world" where
  "build_attempts c s [] d last_err w =
     (case last_err of None \<Rightarrow> (Inl (AssertionError []), w) | Some e \<Rightarrow> (Inl e, w))"
| "build_attempts c s (attempt # rest) d last_err w =
     (let w1 = emit (ChromeLaunch attempt (dirs_list d)) w
      in case chrome_launch s attempt of
           None \<Rightarrow> (Inr \<lparr>tmp_dirs = dirs_list d\<rparr>, w1)
         | Some e \<Rightarrow>
             if is_WebDriverException e
             then (let w2 = cleanup_tmp_list s (dirs_list d) w1;
                       (d', w3) = alloc_dirs c w2;
                       w4 = emit (Sleep 800) w3
                   in build_attempts c s rest d' (Some e) w4)
             else (let w2 = cleanup_tmp_list s (dirs_list d) w1
                   in build_attempts c s [] d (Some e) w2))"

definition build_driver :: "config \<Rightarrow> script \<Rightarrow> world \<Rightarrow> (exn + driver) \<times> world" where
  "build_driver c s w =
     (let (d, w1) = alloc_dirs c w
      in build_attempts c s [1, 2] d None w1)"

section \<open>Diagnostics\<close>

text \<open>
  \<open>_dump_small_html\<close>: the page source with its whitespace collapsed, cut at
  \<open>max_len\<close>; \<open>''<no html>''\<close> when the page source cannot be read. A page source of
  \<open>None\<close> counts as the empty string (\<open>driver.page_source or ""\<close>).
\<close>

definition dump_small_html :: "script \<Rightarrow> nat \<Rightarrow> pystr" where
  "dump_small_html s max_len =
     (case page_source s of
        None \<Rightarrow> ascii ''<no html>''
      | Some html \<Rightarrow> (let compact = py_join [32] (py_split html) in take max_len compact))"

text \<open>\<open>_screenshot\<close>: only when enabled; a failure to save is ignored.\<close>

definition screenshot :: "config \<Rightarrow> world \<Rightarrow> world" where
  "screenshot c w = (if SCREENSHOT_ON_ERROR c then emit Screenshot w else w)"

section \<open>Login\<close>

definition EMAIL_SELECTORS :: "locator list" where
  "EMAIL_SELECTORS =
     [(ID, ascii ''email''), (CSS_SELECTOR, ascii ''input#email.form-control.m-input'')]"

definition PASSWORD_SELECTORS :: "locator list" where
  "PASSWORD_SELECTORS =
     [(ID, ascii ''password''), (CSS_SELECTOR, ascii ''input#password.form-control.m-input'')]"

definition LOGIN_BTN_SELECTORS :: "locator list" where
  "LOGIN_BTN_SELECTORS =
     [(XPATH, ascii ''//button[normalize-space()='Entrar']''),
      (CSS_SELECTOR, ascii ''button[type='submit']''),
      (CSS_SELECTOR, ascii ''button.btn.m-btn.m-btn--custom'')]"

text \<open>
  \<open>find_first_visible\<close>: the first locator that becomes visible; otherwise the last
  exception, or a timeout when there was no locator at all.
\<close>

fun find_first_visible :: "script \<Rightarrow> locator list \<Rightarrow> exn option \<Rightarrow> exn + locator" where
  "find_first_visible s [] last_exc =
     (case last_exc of
        Some e \<Rightarrow> Inl e
      | None \<Rightarrow> Inl (TimeoutException
          (ascii ''Message: Nenhum seletor vis'' @ [237] @ ascii ''vel encontrado.'' @ [10])))"
| "find_first_visible s (l # ls) last_exc =
     (case visible s l of
        None \<Rightarrow> Inr l
      | Some e \<Rightarrow> find_first_visible s ls (Some e))"

text \<open>\<open>maybe_already_logged\<close>: every failure of the probe means "not logged in".\<close>

definition maybe_already_logged :: "config \<Rightarrow> script \<Rightarrow> bool" where
  "maybe_already_logged c s =
     (if POST_LOGIN_SELECTOR c = [] then False else marker_present s)"

text \<open>\<open>os.environ.get("RHID_LOGIN_URL") or os.environ.get("RHID_URL")\<close>.\<close>

definition login_url :: "config \<Rightarrow> pystr option" where
  "login_url c =
     (case RHID_LOGIN_URL c of
        None \<Rightarrow> RHID_URL c
      | Some u \<Rightarrow> if u = [] then RHID_URL c else Some u)"

definition no_url_message :: pystr where
  "no_url_message =
     ascii ''Defina RHID_URL (ou RHID_LOGIN_URL) no .env para a p'' @ [225]
       @ ascii ''gina de login.''"

text \<open>
  \<open>_login\<close>, in three parts: opening the page, finding the form, and filling and
  submitting it. \<open>type_with_retry\<close> and \<open>click_with_retry\<close> are single answers of
  the script; a timeout of the last wait is only logged.
\<close>

definition login_submit :: "script \<Rightarrow> pystr \<Rightarrow> pystr \<Rightarrow> world \<Rightarrow> (exn + unit) \<times> world" where
  "login_submit s email senha w =
     (let w1 = emit (TypeText (ID, ascii ''email'') email) w in
      case type_result s (ID, ascii ''email'') of Some e \<Rightarrow> (Inl e, w1) | None \<Rightarrow>
      let w2 = emit (TypeText (ID, ascii ''password'') senha) w1 in
      case type_result s (ID, ascii ''password'') of Some e \<Rightarrow> (Inl e, w2) | None \<Rightarrow>
      let w3 = emit LoginClick w2 in
      case login_click s of Some e \<Rightarrow> (Inl e, w3) | None \<Rightarrow>
      case post_login_wait s of
        None \<Rightarrow> (Inr (), w3)
      | Some e \<Rightarrow> if is_TimeoutException e then (Inr (), w3) else (Inl e, w3))"

definition login_form :: "script \<Rightarrow> pystr \<Rightarrow> pystr \<Rightarrow> world \<Rightarrow> (exn + unit) \<times> world" where
  "login_form s email senha w =
     (case find_first_visible s EMAIL_SELECTORS None of Inl e \<Rightarrow> (Inl e, w) | Inr _ \<Rightarrow>
      case find_first_visible s PASSWORD_SELECTORS None of Inl e \<Rightarrow> (Inl e, w) | Inr _ \<Rightarrow>
      case find_first_visible s LOGIN_BTN_SELECTORS None of Inl e \<Rightarrow> (Inl e, w) | Inr _ \<Rightarrow>
      login_submit s email senha w)"

definition login :: "config \<Rightarrow> script \<Rightarrow> pystr \<Rightarrow> pystr \<Rightarrow> world \<Rightarrow> (exn + unit) \<times> world" where
  "login c s email senha w =
     (case login_url c of
        None \<Rightarrow> (Inl (RuntimeError no_url_message), w)
      | Some url \<Rightarrow>
          if url = [] then (Inl (RuntimeError no_url_message), w)
          else
            let w1 = emit (Navigate url) w in
            case page_get s of Some e \<Rightarrow> (Inl e, w1) | None \<Rightarrow>
            case dom_ready s of Some e \<Rightarrow> (Inl e, w1) | None \<Rightarrow>
            if maybe_already_logged c s then (Inr (), w1)
            else login_form s email senha w1)"

section \<open>Registering the clock-in\<close>

definition dash_btns :: "locator list" where
  "dash_btns =
     [(XPATH, ascii ''//button[contains(@ng-click,'marcacao_ponto') and contains(normalize-space(.),'Registrar Ponto')]''),
      (XPATH, ascii ''//button[contains(@ng-click,'redirect') and contains(normalize-space(.),'Registrar Ponto')]''),
      (XPATH, ascii ''//button[contains(normalize-space(.),'Registrar Ponto') and contains(@class,'btn-primary')]'')]"

definition final_locators :: "locator list" where
  "final_locators =
     [(XPATH, ascii ''//button[contains(@ng-click,'registraPonto') and contains(normalize-space(.),'Registrar Ponto')]''),
      (XPATH, ascii ''//div[contains(.,'Registre seu ponto') or contains(.,'2 - Registre seu ponto')]//button[contains(normalize-space(.),'Registrar Ponto')]''),
      (XPATH, ascii ''//button[contains(normalize-space(.),'Registrar Ponto') and contains(@class,'btn-primary')]''),
      (XPATH, ascii ''//button[contains(normalize-space(.),'Registrar Ponto')]'')]"

text \<open>The first locator of a list that an answer of the page accepts.\<close>

fun first_match :: "(locator \<Rightarrow> bool) \<Rightarrow> locator list \<Rightarrow> locator option" where
  "first_match found [] = None"
| "first_match found (l # ls) = (if found l then Some l else first_match found ls)"

text \<open>
  Stage 1: click the dashboard's button when one is visible, with \<open>click_with_retry\<close>
  when the direct click fails; with no button the flow goes on.
\<close>

definition dashboard_click :: "script \<Rightarrow> world \<Rightarrow> (exn + unit) \<times> world" where
  "dashboard_click s w =
     (case first_match (dash_visible s) dash_btns of
        None \<Rightarrow> (Inr (), w)
      | Some dash_btn \<Rightarrow>
          let w1 = emit DashClick w in
          case dash_click s of
            None \<Rightarrow> (Inr (), w1)
          | Some e \<Rightarrow>
              let w2 = emit DashClickRetry w1 in
              case dash_retry s of None \<Rightarrow> (Inr (), w2) | Some e' \<Rightarrow> (Inl e', w2))"

text \<open>\<open>_wait_url_contains\<close>: a timeout gives \<open>False\<close>, any other failure is raised.\<close>

definition wait_url_contains :: "script \<Rightarrow> exn + bool" where
  "wait_url_contains s =
     (case url_wait s of
        None \<Rightarrow> Inr True
      | Some e \<Rightarrow> if is_TimeoutException e then Inr False else Inl e)"

text \<open>
  The search for the final button: one element of \<open>final_rounds\<close> for each turn of the
  \<open>while\<close> loop that begins before the deadline.
\<close>

fun locate_final :: "(locator \<Rightarrow> bool) list \<Rightarrow> locator option" where
  "locate_final [] = None"
| "locate_final (present # later) =
     (case first_match present final_locators of
        Some l \<Rightarrow> Some l
      | None \<Rightarrow> locate_final later)"

definition not_found_message :: pystr where
  "not_found_message =
     ascii ''N'' @ [227] @ ascii ''o encontrei o bot'' @ [227]
       @ ascii ''o final 'Registrar Ponto'. HTML compacto: ''"

definition not_enabled_message :: pystr where
  "not_enabled_message =
     ascii ''Bot'' @ [227] @ ascii ''o FINAL n'' @ [227]
       @ ascii ''o habilitou dentro do timeout. Verifique geolocaliza'' @ [231, 227]
       @ ascii ''o/permite GPS.''"

definition dry_run_result :: pystr where
  "dry_run_result =
     ascii ''DRY RUN: cheguei ao bot'' @ [227] @ ascii ''o final habilitado; clique final n''
       @ [227] @ ascii ''o executado.''"

definition punched_result :: pystr where
  "punched_result = ascii ''Ponto registrado.''"

text \<open>The two waits for a confirmation; neither timing out is an error.\<close>

definition confirmation :: "script \<Rightarrow> world \<Rightarrow> (exn + pystr) \<times> world" where
  "confirmation s w =
     (case confirm_modal s of
        None \<Rightarrow> (Inr punched_result, w)
      | Some e \<Rightarrow>
          if is_TimeoutException e
          then (case confirm_text s of
                  None \<Rightarrow> (Inr punched_result, w)
                | Some e' \<Rightarrow>
                    if is_TimeoutException e' then (Inr punched_result, w) else (Inl e', w))
          else (Inl e, w))"

text \<open>
  The click on the final button: \<open>robust_click\<close> with ten seconds; when it fails, a wait
  for the first final locator and \<open>robust_click\<close> with six seconds. \<open>FinalClick\<close> records
  each call of \<open>robust_click\<close> on the final button.
\<close>

definition final_click :: "config \<Rightarrow> script \<Rightarrow> world \<Rightarrow> (exn + pystr) \<times> world" where
  "final_click c s w =
     (let w1 = emit (FinalClick 10) w in
      case click_main s of
        None \<Rightarrow> confirmation s w1
      | Some e \<Rightarrow>
          case fallback_presence s of
            Some e' \<Rightarrow> (Inl e', screenshot c w1)
          | None \<Rightarrow>
              let w2 = emit (FinalClick 6) w1 in
              case click_fallback s of
                None \<Rightarrow> confirmation s w2
              | Some e' \<Rightarrow> (Inl e', screenshot c w2))"

text \<open>Stage 2, from the search for the final button on.\<close>

definition marcacao :: "config \<Rightarrow> script \<Rightarrow> world \<Rightarrow> (exn + pystr) \<times> world" where
  "marcacao c s w =
     (case locate_final (final_rounds s) of
        None \<Rightarrow>
          (let html = dump_small_html s 2000
           in (Inl (RuntimeError (not_found_message @ take 800 html)), screenshot c w))
      | Some final_btn \<Rightarrow>
          case enable_wait s of
            Some e \<Rightarrow>
              if is_TimeoutException e
              then (Inl (RuntimeError not_enabled_message), screenshot c w)
              else (Inl e, w)
          | None \<Rightarrow>
              if PUNCH_DRY_RUN c then (Inr dry_run_result, w)
              else final_click c s w)"

definition registrar_ponto :: "config \<Rightarrow> script \<Rightarrow> world \<Rightarrow> (exn + pystr) \<times> world" where
  "registrar_ponto c s w =
     (case dashboard_click s w of
        (Inl e, w1) \<Rightarrow> (Inl e, w1)
      | (Inr _, w1) \<Rightarrow>
          case wait_url_contains s of
            Inl e \<Rightarrow> (Inl e, w1)
          | Inr _ \<Rightarrow> marcacao c s w1)"

section \<open>The entry point\<close>

text \<open>The dictionary \<open>run_rhid_punch\<close> returns: one embed and an optional map link.\<close>

record field =
  fname :: pystr
  fvalue :: pystr
  finline :: bool

record embed =
  title :: pystr
  description :: pystr
  color :: nat
  embed_fields :: "field list"
  footer_text :: pystr
  timestamp :: pystr

record payload =
  content :: pystr
  embeds :: "embed list"
  maps_url :: "pystr option"

text \<open>\<open>_location_human\<close>.\<close>

definition location_human :: "config \<Rightarrow> pystr \<times> pystr option" where
  "location_human c =
     (case (COMPANY_LAT c, COMPANY_LON c) of
        (Some lat0, Some lon0) \<Rightarrow>
          if lat0 = [] \<or> lon0 = [] then (ascii ''Indefinida'', None)
          else (let lat = py_strip lat0; lon = py_strip lon0;
                    maps = ascii ''https://maps.google.com/?q='' @ lat @ ascii '','' @ lon
                in (lat @ ascii '', '' @ lon @ ascii '' (Empresa)'', Some maps))
      | _ \<Rightarrow> (ascii ''Indefinida'', None))"

definition missing_credentials_message :: pystr where
  "missing_credentials_message =
     ascii ''Credenciais RHID n'' @ [227]
       @ ascii ''o configuradas (RHID_EMAIL/RHID_PASSWORD).''"

text \<open>\<open>os.environ.get(name, "")\<close>.\<close>

definition getenv_or_empty :: "pystr option \<Rightarrow> pystr" where
  "getenv_or_empty v = (case v of None \<Rightarrow> [] | Some x \<Rightarrow> x)"

text \<open>The dictionary built after a successful flow.\<close>

definition build_payload :: "config \<Rightarrow> script \<Rightarrow> pystr \<Rightarrow> pystr \<Rightarrow> pystr \<Rightarrow> payload" where
  "build_payload c s trigger rhid_email resultado =
     (let hora = now_human s;
          (loc_str, maps_link) = location_human c;
          modo = (if PUNCH_DRY_RUN c then ascii ''DRY RUN (simula'' @ [231, 227] @ ascii ''o)''
                  else ascii ''Produ'' @ [231, 227] @ ascii ''o'');
          etapas = ascii ''login '' @ [8594] @ ascii '' dashboard '' @ [8594] @ ascii '' marca''
                     @ [231, 227] @ ascii ''o '' @ [8594] @ ascii '' bot'' @ [227]
                     @ ascii ''o final habilitado '' @ [10004];
          flds =
            [\<lparr>fname = ascii ''Hor'' @ [225] @ ascii ''rio'', fvalue = hora, finline = True\<rparr>,
             \<lparr>fname = ascii ''Modo'', fvalue = modo, finline = True\<rparr>,
             \<lparr>fname = ascii ''E-mail'', fvalue = [96] @ rhid_email @ [96], finline = False\<rparr>,
             \<lparr>fname = ascii ''Localiza'' @ [231, 227] @ ascii ''o'',
              fvalue = loc_str @
                (case maps_link of
                   None \<Rightarrow> []
                 | Some m \<Rightarrow> if m = [] then []
                     else ascii '' '' @ [8226] @ ascii '' [Abrir no Maps]('' @ m @ ascii '')''),
              finline = False\<rparr>,
             \<lparr>fname = ascii ''Etapas'', fvalue = etapas, finline = False\<rparr>,
             \<lparr>fname = ascii ''Resultado'', fvalue = resultado, finline = False\<rparr>,
             \<lparr>fname = ascii ''Dura'' @ [231, 227] @ ascii ''o'',
              fvalue = took_text s @ ascii ''s'', finline = True\<rparr>]
      in \<lparr>content = [],
          embeds =
            [\<lparr>title = [9989] @ ascii '' RHID'',
              description = ascii ''Rotina de marca'' @ [231, 227] @ ascii ''o de ponto'',
              color = 3066993,
              embed_fields = flds,
              footer_text = ascii ''Trigger: '' @ trigger,
              timestamp = utc_iso s\<rparr>],
          maps_url = maps_link\<rparr>)"

text \<open>The body of the \<open>try\<close> after the driver exists.\<close>

definition punch_flow ::
  "config \<Rightarrow> script \<Rightarrow> pystr \<Rightarrow> world \<Rightarrow> (exn + payload) \<times> world" where
  "punch_flow c s trigger w =
     (let rhid_email = getenv_or_empty (RHID_EMAIL c);
          rhid_senha = getenv_or_empty (RHID_PASSWORD c)
      in if rhid_email = [] \<or> rhid_senha = []
         then (Inl (RuntimeError missing_credentials_message), w)
         else
           case login c s rhid_email rhid_senha w of
             (Inl e, w1) \<Rightarrow> (Inl e, w1)
           | (Inr _, w1) \<Rightarrow>
               case registrar_ponto c s w1 of
                 (Inl e, w2) \<Rightarrow> (Inl e, w2)
               | (Inr resultado, w2) \<Rightarrow>
                   (Inr (build_payload c s trigger rhid_email resultado), w2))"

text \<open>The two \<open>except\<close> clauses: every failure leaves as a \<open>RuntimeError\<close>.\<close>

definition wrap_failure :: "exn \<Rightarrow> exn" where
  "wrap_failure e =
     (if is_TimeoutException e
      then RuntimeError (ascii ''Falha ao registrar ponto: Timeout ('' @ exn_str e @ ascii '')'')
      else RuntimeError (ascii ''Falha ao registrar ponto: '' @ exn_str e))"

text \<open>
  The \<open>finally\<close> clause for a driver that exists: quit, ignoring a failure, then remove
  the driver's directories.
\<close>

definition teardown :: "script \<Rightarrow> driver \<Rightarrow> world \<Rightarrow> world" where
  "teardown s drv w =
     (let w1 = emit Quit w;
          w2 = (case quit_result s of None \<Rightarrow> w1 | Some e \<Rightarrow> w1)
      in cleanup_tmp_list s (tmp_dirs drv) w2)"

text \<open>
  \<open>run_rhid_punch(trigger, discord_user)\<close>; the second argument is never read. When
  \<open>_build_driver\<close> raises, \<open>driver\<close> is still \<open>None\<close> and the \<open>finally\<close> clause does
  nothing.
\<close>

definition run_rhid_punch ::
  "config \<Rightarrow> script \<Rightarrow> pystr \<Rightarrow> world \<Rightarrow> (exn + payload) \<times> world" where
  "run_rhid_punch c s trigger w =
     (case build_driver c s w of
        (Inl e, w1) \<Rightarrow> (Inl (wrap_failure e), w1)
      | (Inr drv, w1) \<Rightarrow>
          case punch_flow c s trigger w1 of
            (Inl e, w2) \<Rightarrow> (Inl (wrap_failure e), teardown s drv w2)
          | (Inr result, w2) \<Rightarrow> (Inr result, teardown s drv w2))"

section \<open>The Discord front end\<close>

text \<open>The embed and the optional link button the bot sends back.\<close>

record discord_embed =
  d_title :: pystr
  d_description :: pystr
  d_color :: nat
  d_fields :: "field list"
  d_footer :: "pystr option"

definition aliases :: "(pystr \<times> pystr) list" where
  "aliases =
     [(ascii ''Hor'' @ [225] @ ascii ''rio'', [128338] @ ascii '' Hor'' @ [225] @ ascii ''rio''),
      (ascii ''Modo'', [9881, 65039] @ ascii '' Modo''),
      (ascii ''E-mail'', [128231] @ ascii '' E-mail''),
      (ascii ''Localiza'' @ [231, 227] @ ascii ''o'',
         [128205] @ ascii '' Localiza'' @ [231, 227] @ ascii ''o''),
      (ascii ''Etapas'', [129517] @ ascii '' Etapas''),
      (ascii ''Resultado'', [9989] @ ascii '' Resultado''),
      (ascii ''Dura'' @ [231, 227] @ ascii ''o'',
         [9201, 65039] @ ascii '' Dura'' @ [231, 227] @ ascii ''o'')]"

definition alias_field :: "field \<Rightarrow> field" where
  "alias_field f =
     \<lparr>fname = (case map_of aliases (fname f) of None \<Rightarrow> fname f | Some a \<Rightarrow> a),
      fvalue = fvalue f, finline = finline f\<rparr>"

text \<open>
  \<open>_embed_from_embeds_dict\<close>, which \<open>build_embed_from_result\<close> calls for every
  dictionary with the key \<open>embeds\<close>, as the automator's always is. The result is the
  message text, the embed and the address of the map button.
\<close>

definition embed_from_embeds_dict ::
  "script \<Rightarrow> payload \<Rightarrow> pystr option \<times> discord_embed \<times> pystr option" where
  "embed_from_embeds_dict s p =
     (let base = \<lparr>d_title = [9989] @ ascii '' RHID'',
                  d_description = ascii ''Rotina de marca'' @ [231, 227] @ ascii ''o de ponto'',
                  d_color = 3049177, d_fields = [], d_footer = None\<rparr>;
          em = (case embeds p of
                  [] \<Rightarrow> base
                | ed # _ \<Rightarrow>
                    base\<lparr>d_color := (if color ed = 0 then 3049177 else color ed),
                         d_fields :=
                           (if timestamp ed = [] then []
                            else case local_time_text s (timestamp ed) of
                                   None \<Rightarrow> []
                                 | Some txt \<Rightarrow>
                                     [\<lparr>fname = [128338] @ ascii '' Hor'' @ [225] @ ascii ''rio'',
                                       fvalue = txt, finline = True\<rparr>])
                           @ map alias_field (embed_fields ed),
                         d_footer := Some (footer_text ed)\<rparr>);
          view = (case maps_url p of None \<Rightarrow> None | Some u \<Rightarrow> if u = [] then None else Some u)
      in (if content p = [] then None else Some (content p), em, view))"

definition build_embed_from_result ::
  "script \<Rightarrow> payload \<Rightarrow> pystr option \<times> discord_embed \<times> pystr option" where
  "build_embed_from_result s result = embed_from_embeds_dict s result"

text \<open>
  \<open>run_rhid_punch_async\<close> runs the automator on a worker thread with the trigger it is
  given; the user only fills the argument the automator never reads.
\<close>

definition run_rhid_punch_async ::
  "config \<Rightarrow> script \<Rightarrow> pystr \<Rightarrow> int \<Rightarrow> world \<Rightarrow> (exn + payload) \<times> world" where
  "run_rhid_punch_async c s trigger who w = run_rhid_punch c s trigger w"

text \<open>What a handler sends to the user, in order.\<close>

datatype reply =
    SendMessage pystr
  | Defer
  | FollowupEmbed "pystr option" discord_embed "pystr option"
  | FollowupText pystr

text \<open>
  The module-level state of the bot: the time of each user's last accepted button press,
  and the world the automator acts on. Times are the seconds \<open>time.time()\<close> returns,
  taken as real numbers.
\<close>

record bot =
  recent :: "int \<Rightarrow> real option"
  bot_world :: world

text \<open>\<open>int(x)\<close> of a float: truncation towards zero.\<close>

definition py_int :: "real \<Rightarrow> int" where
  "py_int x = (if 0 \<le> x then \<lfloor>x\<rfloor> else \<lceil>x\<rceil>)"

definition wait_message :: "int \<Rightarrow> pystr" where
  "wait_message n = ascii ''Aguarde '' @ str_int n @ ascii ''s para tentar novamente.''"

text \<open>What both handlers do after \<open>defer\<close>: run the automator and report.\<close>

definition run_and_report :: "config \<Rightarrow> script \<Rightarrow> pystr \<Rightarrow> int \<Rightarrow> bot \<Rightarrow> reply list \<times> bot" where
  "run_and_report c s trigger who b =
     (case run_rhid_punch_async c s trigger who (bot_world b) of
        (Inr result, w') \<Rightarrow>
          (let (content, em, view) = build_embed_from_result s result
           in ([Defer, FollowupEmbed content em view], b\<lparr>bot_world := w'\<rparr>))
      | (Inl e, w') \<Rightarrow>
          ([Defer, FollowupText ([10060] @ ascii '' Erro: '' @ exn_str e)], b\<lparr>bot_world := w'\<rparr>))"

text \<open>\<open>PunchView.punch\<close>: the button, pressed by \<open>user_id\<close> at time \<open>now\<close>.\<close>

definition punch :: "config \<Rightarrow> script \<Rightarrow> int \<Rightarrow> real \<Rightarrow> bot \<Rightarrow> reply list \<times> bot" where
  "punch c s user_id now b =
     (let last = (case recent b user_id of None \<Rightarrow> 0 | Some t \<Rightarrow> t)
      in if now - last < real_of_int (RATE_LIMIT_SECONDS c)
         then ([SendMessage
                  (wait_message (py_int (real_of_int (RATE_LIMIT_SECONDS c) - (now - last))))], b)
         else run_and_report c s (ascii ''button'') user_id
                (b\<lparr>recent := (recent b)(user_id \<mapsto> now)\<rparr>))"

text \<open>\<open>baterponto\<close>: the slash command.\<close>

definition baterponto :: "config \<Rightarrow> script \<Rightarrow> int \<Rightarrow> bot \<Rightarrow> reply list \<times> bot" where
  "baterponto c s user_id b = run_and_report c s (ascii ''slash'') user_id b"

text \<open>The default of the parameter \<open>trigger\<close> of \<open>run_rhid_punch\<close>.\<close>

definition default_trigger :: pystr where
  "default_trigger = ascii ''manual''"

section \<open>Concrete configurations and scripts\<close>

text \<open>
  A production configuration with a sixty-second window, and a script in which the browser
  starts at once and every step of the portal succeeds.
\<close>

definition cfg0 :: config where
  "cfg0 =
     \<lparr>RHID_EMAIL = Some (ascii ''ana@example.com''), RHID_PASSWORD = Some (ascii ''secret''),
      RHID_LOGIN_URL = None, RHID_URL = Some (ascii ''https://rhid.example/login''),
      POST_LOGIN_SELECTOR = [], PUNCH_DRY_RUN = False, SCREENSHOT_ON_ERROR = False,
      RHID_USE_USER_DATA = False, COMPANY_LAT = None, COMPANY_LON = None,
      RATE_LIMIT_SECONDS = 60\<rparr>"

definition script_ok :: script where
  "script_ok =
     \<lparr>chrome_launch = (\<lambda>n. None), rm_blocked = [], quit_result = None,
      page_get = None, dom_ready = None, marker_present = False,
      visible = (\<lambda>l. None), type_result = (\<lambda>l. None), login_click = None,
      post_login_wait = None, dash_visible = (\<lambda>l. True), dash_click = None,
      dash_retry = None, url_wait = None, final_rounds = [\<lambda>l. True],
      page_source = Some (ascii ''<html> <body>  ok </body></html>''),
      enable_wait = None, click_main = None, fallback_presence = None,
      click_fallback = None, confirm_modal = None, confirm_text = None,
      now_human = ascii ''03/10/2025 13:52:33 -03'', took_text = ascii ''12.3'',
      utc_iso = ascii ''2025-10-03T16:52:33+00:00'', local_time_text = (\<lambda>t. None)\<rparr>"

definition world0 :: world where
  "world0 = \<lparr>existing = [], next_suffix = 0, events = []\<rparr>"

definition bot0 :: bot where
  "bot0 = \<lparr>recent = Map.empty, bot_world = world0\<rparr>"

text \<open>A script in which the browser never starts.\<close>

definition script_down :: script where
  "script_down = script_ok\<lparr>chrome_launch :=
      (\<lambda>n. Some (SessionNotCreatedException (ascii ''Message: session not created'')))\<rparr>"

text \<open>The footer of the embed a handler sent after its run, when it sent one.\<close>

fun reply_footer :: "reply list \<Rightarrow> pystr option" where
  "reply_footer [Defer, FollowupEmbed ct em v] = d_footer em"
| "reply_footer rs = None"

text \<open>
  A text is collapsed when each of its whitespace characters is a space that no whitespace
  follows.
\<close>

fun collapsed :: "pystr \<Rightarrow> bool" where
  "collapsed [] = True"
| "collapsed [c] = (is_space c \<longrightarrow> c = 32)"
| "collapsed (c # d # cs) = ((is_space c \<longrightarrow> c = 32 \<and> \<not> is_space d) \<and> collapsed (d # cs))"

text \<open>
  A script in which the final button never appears, on a page whose source has a line
  break, a tab and runs of spaces.
\<close>

definition script_lost :: script where
  "script_lost = script_ok\<lparr>final_rounds := [\<lambda>l. False, \<lambda>l. False],
      page_source := Some ([60, 104, 62, 10, 32, 32, 104, 105, 9, 32, 60, 47, 104, 62, 32])\<rparr>"

text \<open>A script in which the browser starts at the second attempt.\<close>

definition script_retry :: script where
  "script_retry = script_ok\<lparr>chrome_launch :=
      (\<lambda>n. if n = 1 then Some (WebDriverException (ascii ''Message: chrome not reachable''))
            else None)\<rparr>"

text \<open>The configuration without an e-mail address, and the one with the dry run on.\<close>

definition cfg_nocred :: config where
  "cfg_nocred = cfg0\<lparr>RHID_EMAIL := None\<rparr>"

definition cfg_dry :: config where
  "cfg_dry = cfg0\<lparr>PUNCH_DRY_RUN := True\<rparr>"

section \<open>Notions for stating the properties\<close>

text \<open>
  The directories one round of allocation makes when the next suffix is \<open>n\<close>, and the
  world after that round.
\<close>

definition dirs_at :: "config \<Rightarrow> nat \<Rightarrow> path list" where
  "dirs_at c n =
     [TmpDir (ascii ''data-'') n, TmpDir (ascii ''cache-'') (n + 1)]
       @ (if RHID_USE_USER_DATA c then [TmpDir (ascii ''profile-'') (n + 2)] else [])"

definition alloc_world :: "config \<Rightarrow> world \<Rightarrow> world" where
  "alloc_world c w =
     w\<lparr>existing := existing w @ dirs_at c (next_suffix w),
       next_suffix := next_suffix w + length (dirs_at c (next_suffix w)),
       events := events w @ map Mkdtemp (dirs_at c (next_suffix w))\<rparr>"

text \<open>The directories left of \<open>ps\<close> once the removal of \<open>ds\<close> has been tried.\<close>

definition removed :: "script \<Rightarrow> path list \<Rightarrow> path list \<Rightarrow> path list" where
  "removed s ds ps = filter (\<lambda>p. p \<notin> set ds \<or> p \<in> set (rm_blocked s)) ps"

text \<open>The events that are attempts to start the browser.\<close>

fun is_launch :: "event \<Rightarrow> bool" where
  "is_launch (ChromeLaunch n ds) = True"
| "is_launch e = False"

text \<open>
  The events that act on the portal's pages, and among them the calls of \<open>robust_click\<close>
  on the final button. In a flow under configuration \<open>c\<close> only page events occur, and
  with the dry run on none of them is a final click.
\<close>

fun page_event :: "event \<Rightarrow> bool" where
  "page_event (Navigate url) = True"
| "page_event (TypeText l txt) = True"
| "page_event LoginClick = True"
| "page_event DashClick = True"
| "page_event DashClickRetry = True"
| "page_event (FinalClick n) = True"
| "page_event Screenshot = True"
| "page_event e = False"

fun is_final_click :: "event \<Rightarrow> bool" where
  "is_final_click (FinalClick n) = True"
| "is_final_click e = False"

definition flow_event :: "config \<Rightarrow> event \<Rightarrow> bool" where
  "flow_event c e \<longleftrightarrow> page_event e \<and> (PUNCH_DRY_RUN c \<longrightarrow> \<not> is_final_click e)"

text \<open>
  From \<open>w\<close> to \<open>w'\<close> only events were added, each with the property \<open>P\<close>, and nothing
  else changed.
\<close>

definition grows :: "(event \<Rightarrow> bool) \<Rightarrow> world \<Rightarrow> world \<Rightarrow> bool" where
  "grows P w w' \<longleftrightarrow> (\<exists>evs. w' = w\<lparr>events := events w @ evs\<rparr> \<and> (\<forall>e\<in>set evs. P e))"

section \<open>Unfolding the flow\<close>

lemmas build_defs = build_driver_def alloc_dirs_def mktemp_under_base_def emit_def rmtree_def
lemmas login_defs = login_def login_url_def maybe_already_logged_def login_form_def
  login_submit_def EMAIL_SELECTORS_def PASSWORD_SELECTORS_def LOGIN_BTN_SELECTORS_def
lemmas registrar_defs = registrar_ponto_def dashboard_click_def dash_btns_def
  wait_url_contains_def marcacao_def final_locators_def final_click_def confirmation_def
  screenshot_def
lemmas run_defs = run_rhid_punch_def punch_flow_def getenv_or_empty_def teardown_def
  wrap_failure_def

section \<open>The throttle of the button\<close>

lemma run_and_report_replies:
  "\<exists>r. fst (run_and_report c s trig who b) = [Defer, r]"
  by (auto simp: run_and_report_def split: prod.splits sum.splits)

lemma run_and_report_recent:
  "recent (snd (run_and_report c s trig who b)) = recent b"
  by (auto simp: run_and_report_def split: prod.splits sum.splits)

lemma py_int_pos: "0 \<le> x \<Longrightarrow> py_int x = \<lfloor>x\<rfloor>"
  by (simp add: py_int_def)

lemma punch_rejected:
  "now - (case recent b u of None \<Rightarrow> 0 | Some t \<Rightarrow> t) < real_of_int (RATE_LIMIT_SECONDS c) \<Longrightarrow>
   punch c s u now b =
     ([SendMessage (wait_message \<lfloor>real_of_int (RATE_LIMIT_SECONDS c)
          - (now - (case recent b u of None \<Rightarrow> 0 | Some t \<Rightarrow> t))\<rfloor>)], b)"
  by (simp add: punch_def Let_def py_int_pos)

lemma punch_accepted:
  "\<not> now - (case recent b u of None \<Rightarrow> 0 | Some t \<Rightarrow> t) < real_of_int (RATE_LIMIT_SECONDS c) \<Longrightarrow>
   punch c s u now b =
     run_and_report c s (ascii ''button'') u (b\<lparr>recent := (recent b)(u \<mapsto> now)\<rparr>)"
  by (simp add: punch_def Let_def)

lemma punch_accepted_recent:
  assumes "\<not> now - (case recent b u of None \<Rightarrow> 0 | Some t \<Rightarrow> t) < real_of_int (RATE_LIMIT_SECONDS c)"
  shows "recent (snd (punch c s u now b)) = (recent b)(u \<mapsto> now)"
  by (simp add: punch_accepted[OF assms] run_and_report_recent)

text \<open>
  Claim C3. After an accepted button press of a user at time \<open>t0\<close>, a press of the same user
  at \<open>t1\<close> with \<open>t1 - t0\<close> strictly below the window \<open>W\<close> is answered only with the
  wait message, whose number of seconds is \<open>W - (t1 - t0)\<close> rounded down, and the state is
  left as it was; a press with \<open>t1 - t0\<close> at least \<open>W\<close> is accepted: the interaction is
  deferred, a run is made, and \<open>t1\<close> becomes the user's recorded time. Times are exact
  reals.
\<close>

theorem throttle_window:
  assumes "\<not> (t0 - (case recent b u of None \<Rightarrow> 0 | Some t \<Rightarrow> t) < real_of_int (RATE_LIMIT_SECONDS c))"
  shows "(t1 - t0 < real_of_int (RATE_LIMIT_SECONDS c) \<longrightarrow>
            punch c s1 u t1 (snd (punch c s0 u t0 b))
              = ([SendMessage (wait_message \<lfloor>real_of_int (RATE_LIMIT_SECONDS c) - (t1 - t0)\<rfloor>)],
                 snd (punch c s0 u t0 b)))
       \<and> (real_of_int (RATE_LIMIT_SECONDS c) \<le> t1 - t0 \<longrightarrow>
            (\<exists>r b2. punch c s1 u t1 (snd (punch c s0 u t0 b)) = ([Defer, r], b2)
                    \<and> recent b2 u = Some t1))"
proof -
  let ?b1 = "snd (punch c s0 u t0 b)"
  have last: "(case recent ?b1 u of None \<Rightarrow> 0 | Some t \<Rightarrow> t) = t0"
    by (simp add: punch_accepted_recent[OF assms])
  show ?thesis
  proof (intro conjI impI)
    assume "t1 - t0 < real_of_int (RATE_LIMIT_SECONDS c)"
    then show "punch c s1 u t1 ?b1
              = ([SendMessage (wait_message \<lfloor>real_of_int (RATE_LIMIT_SECONDS c) - (t1 - t0)\<rfloor>)], ?b1)"
      using punch_rejected[of t1 ?b1 u c s1] by (simp add: last)
  next
    assume "real_of_int (RATE_LIMIT_SECONDS c) \<le> t1 - t0"
    then have acc: "\<not> t1 - (case recent ?b1 u of None \<Rightarrow> 0 | Some t \<Rightarrow> t) < real_of_int (RATE_LIMIT_SECONDS c)"
      by (simp add: last)
    obtain r where r: "fst (punch c s1 u t1 ?b1) = [Defer, r]"
      using run_and_report_replies[of c s1 "ascii ''button''" u
              "?b1\<lparr>recent := (recent ?b1)(u \<mapsto> t1)\<rparr>"]
      unfolding punch_accepted[OF acc] by blast
    have "recent (snd (punch c s1 u t1 ?b1)) u = Some t1"
      by (simp add: punch_accepted_recent[OF acc])
    with r show "\<exists>r b2. punch c s1 u t1 ?b1 = ([Defer, r], b2) \<and> recent b2 u = Some t1"
      by (metis prod.collapse)
  qed
qed

text \<open>The example of the specification: ten seconds into a sixty-second window.\<close>

lemma wait_message_50: "wait_message 50 = ascii ''Aguarde 50s para tentar novamente.''"
  by (simp add: wait_message_def str_int_def digits.simps ascii_def)

theorem throttle_window_witness:
  "\<not> ((1000::real) - (case recent bot0 7 of None \<Rightarrow> 0 | Some t \<Rightarrow> t) < real_of_int (RATE_LIMIT_SECONDS cfg0))
   \<and> punch cfg0 script_ok 7 1010 (snd (punch cfg0 script_ok 7 1000 bot0))
        = ([SendMessage (ascii ''Aguarde 50s para tentar novamente.'')],
           snd (punch cfg0 script_ok 7 1000 bot0))
   \<and> (\<exists>r b2. punch cfg0 script_ok 7 1060 (snd (punch cfg0 script_ok 7 1000 bot0)) = ([Defer, r], b2)
            \<and> recent b2 7 = Some 1060)"
proof -
  have h: "\<not> ((1000::real) - (case recent bot0 7 of None \<Rightarrow> 0 | Some t \<Rightarrow> t) < real_of_int (RATE_LIMIT_SECONDS cfg0))"
    by (simp add: bot0_def cfg0_def)
  have w: "RATE_LIMIT_SECONDS cfg0 = 60" by (simp add: cfg0_def)
  from throttle_window[OF h, of 1010 script_ok script_ok] throttle_window[OF h, of 1060 script_ok script_ok]
  show ?thesis using h by (simp add: w wait_message_50)
qed

section \<open>The trigger tag\<close>

lemma run_payload:
  "run_rhid_punch c s trig w = (Inr p, w') \<Longrightarrow> \<exists>email res. p = build_payload c s trig email res"
  by (auto simp: run_rhid_punch_def punch_flow_def Let_def split: prod.splits sum.splits if_splits)

lemma build_payload_footer:
  "map footer_text (embeds (build_payload c s trig email res)) = [ascii ''Trigger: '' @ trig]"
  by (simp add: build_payload_def Let_def split: prod.splits)

lemma embed_footer:
  "embeds p = [ed] \<Longrightarrow> d_footer (fst (snd (embed_from_embeds_dict s p))) = Some (footer_text ed)"
  by (simp add: embed_from_embeds_dict_def Let_def)

lemma build_payload_embeds:
  "\<exists>ed. embeds (build_payload c s trig email res) = [ed] \<and> footer_text ed = ascii ''Trigger: '' @ trig"
  by (simp add: build_payload_def Let_def split: prod.splits)

lemma run_and_report_footer:
  "fst (run_and_report c s trig who b) = [Defer, FollowupEmbed ct em v] \<Longrightarrow>
   d_footer em = Some (ascii ''Trigger: '' @ trig)"
proof -
  assume a: "fst (run_and_report c s trig who b) = [Defer, FollowupEmbed ct em v]"
  obtain r w' where rw: "run_rhid_punch c s trig (bot_world b) = (r, w')" by (cases "run_rhid_punch c s trig (bot_world b)")
  show ?thesis
  proof (cases r)
    case (Inl e)
    with a rw show ?thesis by (simp add: run_and_report_def run_rhid_punch_async_def)
  next
    case (Inr p)
    with rw obtain email res where p: "p = build_payload c s trig email res"
      using run_payload by blast
    obtain ed where ed: "embeds p = [ed]" "footer_text ed = ascii ''Trigger: '' @ trig"
      using build_payload_embeds[of c s trig email res] p by blast
    have "em = fst (snd (embed_from_embeds_dict s p))"
      using a rw Inr by (simp add: run_and_report_def run_rhid_punch_async_def build_embed_from_result_def split: prod.splits)
    then show ?thesis using embed_footer[OF ed(1)] ed(2) by simp
  qed
qed

lemma run_ok: "fst (run_rhid_punch cfg0 script_ok trig world0)
   = Inr (build_payload cfg0 script_ok trig (ascii ''ana@example.com'') punched_result)"
  by (simp add: run_rhid_punch_def build_driver_def alloc_dirs_def mktemp_under_base_def Let_def
      cfg0_def script_ok_def world0_def emit_def punch_flow_def getenv_or_empty_def login_def
      login_url_def maybe_already_logged_def login_form_def login_submit_def
      EMAIL_SELECTORS_def PASSWORD_SELECTORS_def LOGIN_BTN_SELECTORS_def registrar_ponto_def
      dashboard_click_def dash_btns_def wait_url_contains_def marcacao_def final_locators_def
      final_click_def confirmation_def ascii_def)

section \<open>Throttle state, and the command\<close>


text \<open>Evaluation of whole runs on the concrete scripts.\<close>

lemma run_down: "fst (run_rhid_punch cfg0 script_down trig w)
   = Inl (RuntimeError (ascii ''Falha ao registrar ponto: Message: session not created''))"
  by (simp add: run_defs build_defs Let_def script_down_def script_ok_def cfg0_def ascii_def
       split: prod.splits)

text \<open>
  Claim C10. A rejected press leaves the whole state, and so the user's recorded time, as it
  was. An accepted press hands the run a state in which the user's time is already the time
  of this press, and whatever the run does, succeed or fail, that is the recorded time
  afterwards.
\<close>

theorem throttle_state:
  "(now - (case recent b u of None \<Rightarrow> 0 | Some t \<Rightarrow> t) < real_of_int (RATE_LIMIT_SECONDS c) \<longrightarrow>
      snd (punch c s u now b) = b)
   \<and> (\<not> now - (case recent b u of None \<Rightarrow> 0 | Some t \<Rightarrow> t) < real_of_int (RATE_LIMIT_SECONDS c) \<longrightarrow>
      punch c s u now b
        = run_and_report c s (ascii ''button'') u (b\<lparr>recent := (recent b)(u \<mapsto> now)\<rparr>)
      \<and> recent (snd (punch c s u now b)) = (recent b)(u \<mapsto> now))"
  using punch_rejected[of now b u c s] punch_accepted[of now b u c s]
    punch_accepted_recent[of now b u c s] by simp

theorem throttle_state_witness:
  "\<not> (1000::real) - (case recent bot0 7 of None \<Rightarrow> 0 | Some t \<Rightarrow> t) < real_of_int (RATE_LIMIT_SECONDS cfg0)
   \<and> fst (punch cfg0 script_down 7 1000 bot0)
       = [Defer, FollowupText ([10060] @ ascii '' Erro: Falha ao registrar ponto: Message: session not created'')]
   \<and> recent (snd (punch cfg0 script_down 7 1000 bot0)) 7 = Some 1000
   \<and> (1010::real) - (case recent (snd (punch cfg0 script_down 7 1000 bot0)) 7 of None \<Rightarrow> 0 | Some t \<Rightarrow> t)
        < real_of_int (RATE_LIMIT_SECONDS cfg0)
   \<and> snd (punch cfg0 script_ok 7 1010 (snd (punch cfg0 script_down 7 1000 bot0)))
       = snd (punch cfg0 script_down 7 1000 bot0)"
proof -
  let ?b1 = "snd (punch cfg0 script_down 7 1000 bot0)"
  have h: "\<not> (1000::real) - (case recent bot0 7 of None \<Rightarrow> 0 | Some t \<Rightarrow> t) < real_of_int (RATE_LIMIT_SECONDS cfg0)"
    by (simp add: bot0_def cfg0_def)
  have w: "RATE_LIMIT_SECONDS cfg0 = 60" by (simp add: cfg0_def)
  have a: "punch cfg0 script_down 7 1000 bot0
        = run_and_report cfg0 script_down (ascii ''button'') 7 (bot0\<lparr>recent := (recent bot0)(7 \<mapsto> 1000)\<rparr>)"
      and r: "recent ?b1 = (recent bot0)(7 \<mapsto> 1000)"
    using throttle_state[of 1000 bot0 7 cfg0 script_down] h by blast+
  have f: "fst (punch cfg0 script_down 7 1000 bot0)
       = [Defer, FollowupText ([10060] @ ascii '' Erro: Falha ao registrar ponto: Message: session not created'')]"
    unfolding a using run_down[of "ascii ''button''" "bot_world (bot0\<lparr>recent := (recent bot0)(7 \<mapsto> 1000)\<rparr>)"]
    by (auto simp: run_and_report_def run_rhid_punch_async_def ascii_def split: prod.splits sum.splits)
  have g: "(1010::real) - (case recent ?b1 7 of None \<Rightarrow> 0 | Some t \<Rightarrow> t) < real_of_int (RATE_LIMIT_SECONDS cfg0)"
    by (simp add: r w)
  have "snd (punch cfg0 script_ok 7 1010 ?b1) = ?b1"
    using throttle_state[of 1010 ?b1 7 cfg0 script_ok] g by blast
  with h f r g show ?thesis by simp
qed

lemmas front_defs = baterponto_def run_and_report_def run_rhid_punch_async_def
  build_embed_from_result_def

lemma run_ok_world0:
  "snd (run_rhid_punch cfg0 script_ok trig world0) =
     \<lparr>existing = [], next_suffix = 2,
      events = [Mkdtemp (TmpDir (ascii ''data-'') 0), Mkdtemp (TmpDir (ascii ''cache-'') 1),
        ChromeLaunch 1 [TmpDir (ascii ''data-'') 0, TmpDir (ascii ''cache-'') 1],
        Navigate (ascii ''https://rhid.example/login''),
        TypeText (ID, ascii ''email'') (ascii ''ana@example.com''),
        TypeText (ID, ascii ''password'') (ascii ''secret''),
        LoginClick, DashClick, FinalClick 10, Quit,
        Rmtree (TmpDir (ascii ''data-'') 0), Rmtree (TmpDir (ascii ''cache-'') 1)]\<rparr>"
  by (simp add: run_defs build_defs login_defs registrar_defs Let_def
      cfg0_def script_ok_def world0_def ascii_def)

text \<open>
  Claim C4, as stated, fails for the command: two \<open>/baterponto\<close> commands of one user in
  a row are both deferred and both launch the browser.
\<close>

theorem command_repeat_counterexample:
  "hd (fst (baterponto cfg0 script_ok 7 (snd (baterponto cfg0 script_ok 7 bot0)))) = Defer
   \<and> ChromeLaunch 1 [TmpDir (ascii ''data-'') 2, TmpDir (ascii ''cache-'') 3]
       \<in> set (events (bot_world (snd (baterponto cfg0 script_ok 7
                (snd (baterponto cfg0 script_ok 7 bot0))))))"
  by (simp add: front_defs run_defs build_defs login_defs registrar_defs Let_def
      cfg0_def script_ok_def world0_def bot0_def ascii_def split: prod.splits)

text \<open>
  Claim C4, amended. The throttle belongs to the button: a button press within the window is
  answered with the wait message alone and changes nothing. The command has no throttle: it
  always defers and runs the automator, and it neither reads nor changes the recorded times.
\<close>

theorem throttle_only_button:
  "(now - (case recent b u of None \<Rightarrow> 0 | Some t \<Rightarrow> t) < real_of_int (RATE_LIMIT_SECONDS c) \<longrightarrow>
      punch c s u now b =
        ([SendMessage (wait_message \<lfloor>real_of_int (RATE_LIMIT_SECONDS c)
            - (now - (case recent b u of None \<Rightarrow> 0 | Some t \<Rightarrow> t))\<rfloor>)], b))
   \<and> baterponto c s' u b = run_and_report c s' (ascii ''slash'') u b
   \<and> recent (snd (baterponto c s' u b)) = recent b
   \<and> (\<exists>r. fst (baterponto c s' u b) = [Defer, r])"
  using punch_rejected[of now b u c s] run_and_report_replies[of c s' "ascii ''slash''" u b]
  by (simp add: baterponto_def run_and_report_recent)

theorem throttle_only_button_witness:
  "(1010::real) - (case recent (bot0\<lparr>recent := [7 \<mapsto> 1000]\<rparr>) 7 of None \<Rightarrow> 0 | Some t \<Rightarrow> t)
        < real_of_int (RATE_LIMIT_SECONDS cfg0)
   \<and> punch cfg0 script_ok 7 1010 (bot0\<lparr>recent := [7 \<mapsto> 1000]\<rparr>)
       = ([SendMessage (ascii ''Aguarde 50s para tentar novamente.'')], bot0\<lparr>recent := [7 \<mapsto> 1000]\<rparr>)
   \<and> recent (snd (baterponto cfg0 script_ok 7 (bot0\<lparr>recent := [7 \<mapsto> 1000]\<rparr>))) 7 = Some 1000
   \<and> (\<exists>r. fst (baterponto cfg0 script_ok 7 (bot0\<lparr>recent := [7 \<mapsto> 1000]\<rparr>)) = [Defer, r])"
proof -
  have w: "RATE_LIMIT_SECONDS cfg0 = 60" by (simp add: cfg0_def)
  have h: "(1010::real) - (case recent (bot0\<lparr>recent := [7 \<mapsto> 1000]\<rparr>) 7 of None \<Rightarrow> 0 | Some t \<Rightarrow> t)
        < real_of_int (RATE_LIMIT_SECONDS cfg0)"
    by (simp add: w)
  note T = throttle_only_button[of 1010 "bot0\<lparr>recent := [7 \<mapsto> 1000]\<rparr>" 7 cfg0
      script_ok script_ok]
  from T h have p: "punch cfg0 script_ok 7 1010 (bot0\<lparr>recent := [7 \<mapsto> 1000]\<rparr>)
       = ([SendMessage (ascii ''Aguarde 50s para tentar novamente.'')], bot0\<lparr>recent := [7 \<mapsto> 1000]\<rparr>)"
    by (simp add: w wait_message_50)
  from T have r: "recent (snd (baterponto cfg0 script_ok 7 (bot0\<lparr>recent := [7 \<mapsto> 1000]\<rparr>)))
       = recent (bot0\<lparr>recent := [7 \<mapsto> 1000]\<rparr>)"
    by blast
  from T have e: "\<exists>r. fst (baterponto cfg0 script_ok 7 (bot0\<lparr>recent := [7 \<mapsto> 1000]\<rparr>)) = [Defer, r]"
    by blast
  show ?thesis using h p e by (simp add: r)
qed

lemma ascii_append: "ascii (xs @ ys) = ascii xs @ ascii ys"
  by (simp add: ascii_def)

text \<open>
  Claim C8, amended. The footer of the payload is \<open>Trigger:\<close> followed by the tag the
  caller passed; the omitted argument gives \<open>manual\<close>, the button passes \<open>button\<close> and
  the command passes \<open>slash\<close>, and the embed sent to the user carries that footer.
\<close>

theorem trigger_tags:
  "(run_rhid_punch c s trig w = (Inr p, w') \<longrightarrow>
      map footer_text (embeds p) = [ascii ''Trigger: '' @ trig])
   \<and> (run_rhid_punch c s default_trigger w = (Inr p, w') \<longrightarrow>
      map footer_text (embeds p) = [ascii ''Trigger: manual''])
   \<and> (fst (punch c s u now b) = [Defer, FollowupEmbed ct em v] \<longrightarrow>
      d_footer em = Some (ascii ''Trigger: button''))
   \<and> (fst (baterponto c s u b) = [Defer, FollowupEmbed ct em v] \<longrightarrow>
      d_footer em = Some (ascii ''Trigger: slash''))"
proof (intro conjI impI)
  assume "run_rhid_punch c s trig w = (Inr p, w')"
  then show "map footer_text (embeds p) = [ascii ''Trigger: '' @ trig]"
    using run_payload build_payload_footer by blast
next
  assume "run_rhid_punch c s default_trigger w = (Inr p, w')"
  then have "map footer_text (embeds p) = [ascii ''Trigger: '' @ default_trigger]"
    using run_payload build_payload_footer by blast
  then show "map footer_text (embeds p) = [ascii ''Trigger: manual'']"
    by (simp add: default_trigger_def ascii_def)
next
  assume a: "fst (punch c s u now b) = [Defer, FollowupEmbed ct em v]"
  have acc: "\<not> now - (case recent b u of None \<Rightarrow> 0 | Some t \<Rightarrow> t) < real_of_int (RATE_LIMIT_SECONDS c)"
  proof
    assume "now - (case recent b u of None \<Rightarrow> 0 | Some t \<Rightarrow> t) < real_of_int (RATE_LIMIT_SECONDS c)"
    from punch_rejected[OF this, of s] a show False by simp
  qed
  from a have "d_footer em = Some (ascii ''Trigger: '' @ ascii ''button'')"
    unfolding punch_accepted[OF acc] by (rule run_and_report_footer)
  then show "d_footer em = Some (ascii ''Trigger: button'')" by (simp add: ascii_def)
next
  assume "fst (baterponto c s u b) = [Defer, FollowupEmbed ct em v]"
  then have "d_footer em = Some (ascii ''Trigger: '' @ ascii ''slash'')"
    unfolding baterponto_def by (rule run_and_report_footer)
  then show "d_footer em = Some (ascii ''Trigger: slash'')" by (simp add: ascii_def)
qed

lemma report_ok:
  "fst (run_and_report cfg0 script_ok trig who (b\<lparr>bot_world := world0\<rparr>)) =
     (let E = embed_from_embeds_dict script_ok
                (build_payload cfg0 script_ok trig (ascii ''ana@example.com'') punched_result)
      in [Defer, FollowupEmbed (fst E) (fst (snd E)) (snd (snd E))])"
  using run_ok[of trig]
  by (auto simp: run_and_report_def run_rhid_punch_async_def build_embed_from_result_def Let_def
       split: prod.splits sum.splits)

text \<open>
  Claim C8, as stated, fails for the command: its tag is \<open>slash\<close>, not \<open>command\<close>.
\<close>

theorem command_tag_counterexample:
  "reply_footer (fst (baterponto cfg0 script_ok 7 bot0)) = Some (ascii ''Trigger: slash'')
   \<and> reply_footer (fst (baterponto cfg0 script_ok 7 bot0)) \<noteq> Some (ascii ''Trigger: command'')"
proof -
  have "bot0 = bot0\<lparr>bot_world := world0\<rparr>" by (simp add: bot0_def)
  then have "fst (baterponto cfg0 script_ok 7 bot0) =
     (let E = embed_from_embeds_dict script_ok
                (build_payload cfg0 script_ok (ascii ''slash'') (ascii ''ana@example.com'') punched_result)
      in [Defer, FollowupEmbed (fst E) (fst (snd E)) (snd (snd E))])"
    unfolding baterponto_def using report_ok[of "ascii ''slash''" 7 bot0] by simp
  then show ?thesis
    by (simp add: Let_def embed_from_embeds_dict_def build_payload_def ascii_def split: prod.splits)
qed

theorem trigger_tags_witness:
  "run_rhid_punch cfg0 script_ok default_trigger world0
      = (Inr (build_payload cfg0 script_ok default_trigger (ascii ''ana@example.com'') punched_result),
         snd (run_rhid_punch cfg0 script_ok default_trigger world0))
   \<and> map footer_text (embeds (build_payload cfg0 script_ok default_trigger
         (ascii ''ana@example.com'') punched_result)) = [ascii ''Trigger: manual'']
   \<and> reply_footer (fst (punch cfg0 script_ok 7 1000 bot0)) = Some (ascii ''Trigger: button'')
   \<and> reply_footer (fst (baterponto cfg0 script_ok 7 bot0)) = Some (ascii ''Trigger: slash'')"
proof -
  let ?p = "build_payload cfg0 script_ok default_trigger (ascii ''ana@example.com'') punched_result"
  let ?w = "snd (run_rhid_punch cfg0 script_ok default_trigger world0)"
  let ?E = "\<lambda>trig. embed_from_embeds_dict script_ok
                (build_payload cfg0 script_ok trig (ascii ''ana@example.com'') punched_result)"
  have r: "run_rhid_punch cfg0 script_ok default_trigger world0 = (Inr ?p, ?w)"
    using run_ok[of default_trigger] by (metis prod.collapse)
  have b0: "bot0 = bot0\<lparr>bot_world := world0\<rparr>" by (simp add: bot0_def)
  have acc: "\<not> (1000::real) - (case recent bot0 7 of None \<Rightarrow> 0 | Some t \<Rightarrow> t) < real_of_int (RATE_LIMIT_SECONDS cfg0)"
    by (simp add: bot0_def cfg0_def)
  have pb: "fst (punch cfg0 script_ok 7 1000 bot0)
     = [Defer, FollowupEmbed (fst (?E (ascii ''button''))) (fst (snd (?E (ascii ''button''))))
          (snd (snd (?E (ascii ''button''))))]"
    unfolding punch_accepted[OF acc]
    using report_ok[of "ascii ''button''" 7 "bot0\<lparr>recent := (recent bot0)(7 \<mapsto> 1000)\<rparr>"]
    by (simp add: bot0_def Let_def)
  have pc: "fst (baterponto cfg0 script_ok 7 bot0)
     = [Defer, FollowupEmbed (fst (?E (ascii ''slash''))) (fst (snd (?E (ascii ''slash''))))
          (snd (snd (?E (ascii ''slash''))))]"
    unfolding baterponto_def using report_ok[of "ascii ''slash''" 7 bot0] b0 by (simp add: Let_def)
  from trigger_tags[of cfg0 script_ok default_trigger world0 ?p ?w 7 1000 bot0
        "fst (?E (ascii ''button''))" "fst (snd (?E (ascii ''button'')))" "snd (snd (?E (ascii ''button'')))"]
       trigger_tags[of cfg0 script_ok default_trigger world0 ?p ?w 7 1000 bot0
        "fst (?E (ascii ''slash''))" "fst (snd (?E (ascii ''slash'')))" "snd (snd (?E (ascii ''slash'')))"]
       r pb pc
  show ?thesis by simp
qed

section \<open>The page excerpt\<close>

lemma is_space_32: "is_space 32"
  by (simp add: is_space_def)

lemma split_from_word:
  "\<forall>c\<in>set cur. \<not> is_space c \<Longrightarrow> w \<in> set (split_from cur s) \<Longrightarrow>
   w \<noteq> [] \<and> (\<forall>c\<in>set w. \<not> is_space c)"
proof (induction s arbitrary: cur)
  case Nil
  then show ?case by (auto split: if_splits)
next
  case (Cons a s)
  show ?case
  proof (cases "is_space a")
    case True
    with Cons.prems have "w = cur \<and> cur \<noteq> [] \<or> w \<in> set (split_from [] s)"
      by (auto split: if_splits)
    then show ?thesis using Cons.IH[of "[]"] Cons.prems(1) by auto
  next
    case False
    with Cons.prems have "w \<in> set (split_from (cur @ [a]) s)" by simp
    then show ?thesis using Cons.IH[of "cur @ [a]"] Cons.prems(1) False by auto
  qed
qed

lemma split_from_words:
  "\<forall>c\<in>set cur. \<not> is_space c \<Longrightarrow>
   \<forall>w\<in>set (split_from cur s). w \<noteq> [] \<and> (\<forall>c\<in>set w. \<not> is_space c)"
  using split_from_word by blast

lemma concat_split_from:
  "concat (split_from cur s) = cur @ filter (\<lambda>c. \<not> is_space c) s"
  by (induction s arbitrary: cur) auto

lemma collapsed_Cons_nonspace:
  "\<not> is_space c \<Longrightarrow> collapsed (c # xs) = collapsed xs"
  by (cases xs) auto

lemma collapsed_append_word:
  "\<forall>c\<in>set w. \<not> is_space c \<Longrightarrow> collapsed (w @ r) = collapsed r"
  by (induction w) (auto simp: collapsed_Cons_nonspace)

lemma collapsed_space_Cons:
  "r \<noteq> [] \<Longrightarrow> \<not> is_space (hd r) \<Longrightarrow> collapsed (32 # r) = collapsed r"
  by (cases r) auto

lemma py_join_hd:
  "ws \<noteq> [] \<Longrightarrow> \<forall>w\<in>set ws. w \<noteq> [] \<and> (\<forall>c\<in>set w. \<not> is_space c) \<Longrightarrow>
   py_join [32] ws \<noteq> [] \<and> \<not> is_space (hd (py_join [32] ws))"
  by (induction "[32::nat]" ws rule: py_join.induct) (auto simp: hd_append)

lemma collapsed_join:
  "\<forall>w\<in>set ws. w \<noteq> [] \<and> (\<forall>c\<in>set w. \<not> is_space c) \<Longrightarrow> collapsed (py_join [32] ws)"
proof (induction "[32::nat]" ws rule: py_join.induct)
  case 1
  show ?case by simp
next
  case (2 w)
  then show ?case using collapsed_append_word[of w "[]"] by simp
next
  case (3 w v ws)
  then have tl: "collapsed (py_join [32] (v # ws))" by simp
  have hd: "py_join [32] (v # ws) \<noteq> [] \<and> \<not> is_space (hd (py_join [32] (v # ws)))"
    using py_join_hd[of "v # ws"] 3 by simp
  have "collapsed (32 # py_join [32] (v # ws))"
    using collapsed_space_Cons hd tl by blast
  then show ?case using collapsed_append_word[of w] 3 by simp
qed

lemma collapsed_take: "collapsed xs \<Longrightarrow> collapsed (take n xs)"
proof (induction xs arbitrary: n rule: collapsed.induct)
  case 1
  show ?case by simp
next
  case (2 c)
  then show ?case by (cases n) auto
next
  case (3 c d cs)
  show ?case
  proof (cases n)
    case 0
    then show ?thesis by simp
  next
    case (Suc m)
    show ?thesis
    proof (cases m)
      case 0
      with Suc 3 show ?thesis by simp
    next
      case (Suc k)
      have "collapsed (take m (d # cs))" using 3 by simp
      with \<open>n = Suc m\<close> Suc 3 show ?thesis by simp
    qed
  qed
qed

lemma filter_join:
  "\<forall>w\<in>set ws. \<forall>c\<in>set w. \<not> is_space c \<Longrightarrow>
   filter (\<lambda>c. \<not> is_space c) (py_join [32] ws) = concat ws"
  by (induction "[32::nat]" ws rule: py_join.induct) (auto simp: is_space_32 filter_id_conv)

lemma compact_collapsed: "collapsed (py_join [32] (py_split html))"
  unfolding py_split_def by (rule collapsed_join) (use split_from_words[of "[]" html] in simp)

lemma compact_content:
  "filter (\<lambda>c. \<not> is_space c) (py_join [32] (py_split html)) = filter (\<lambda>c. \<not> is_space c) html"
proof -
  have "\<forall>w\<in>set (py_split html). \<forall>c\<in>set w. \<not> is_space c"
    unfolding py_split_def using split_from_words[of "[]" html] by simp
  then show ?thesis by (simp add: filter_join py_split_def concat_split_from)
qed

lemma dump_length: "length (dump_small_html s n) \<le> max n 9"
  by (auto simp: dump_small_html_def ascii_def Let_def split: option.splits)

lemma first_match_all_false: "first_match (\<lambda>l. False) ls = None"
  by (induction ls) auto

lemma filter_take_prefix: "\<exists>rest. filter P xs = filter P (take n xs) @ rest"
proof -
  have "filter P xs = filter P (take n xs @ drop n xs)" by simp
  also have "\<dots> = filter P (take n xs) @ filter P (drop n xs)" by (rule filter_append)
  finally show ?thesis by blast
qed

text \<open>
  Claim C9. When the dashboard stage and the wait for the address return and no polling round
  finds the final button, \<open>_registrar_ponto\<close> raises a \<open>RuntimeError\<close> whose text ends
  with an excerpt of the page: the first 800 characters of what \<open>_dump_small_html\<close> gives,
  so never more than 2000. For every page source the excerpt is a prefix of the source's
  words joined by single spaces: it is collapsed, and its other characters are the first
  non-whitespace characters of the source, in order.
\<close>

theorem not_found_excerpt:
  assumes "dashboard_click s w = (Inr u, w1)"
      and "wait_url_contains s = Inr ok"
      and "locate_final (final_rounds s) = None"
  shows "\<exists>excerpt.
           fst (registrar_ponto c s w) = Inl (RuntimeError (not_found_message @ excerpt))
         \<and> excerpt = take 800 (dump_small_html s 2000)
         \<and> length excerpt \<le> 2000
         \<and> (\<forall>html. page_source s = Some html \<longrightarrow>
               excerpt = take 800 (py_join [32] (py_split html))
             \<and> collapsed excerpt
             \<and> (\<exists>rest. filter (\<lambda>c. \<not> is_space c) html
                        = filter (\<lambda>c. \<not> is_space c) excerpt @ rest))"
proof -
  let ?ex = "take 800 (dump_small_html s 2000)"
  have res: "fst (registrar_ponto c s w) = Inl (RuntimeError (not_found_message @ ?ex))"
    using assms by (simp add: registrar_ponto_def marcacao_def Let_def)
  have len: "length ?ex \<le> 2000" by simp
  have src: "?ex = take 800 (py_join [32] (py_split html))
             \<and> collapsed ?ex
             \<and> (\<exists>rest. filter (\<lambda>c. \<not> is_space c) html
                        = filter (\<lambda>c. \<not> is_space c) ?ex @ rest)"
    if "page_source s = Some html" for html
  proof -
    have eq: "?ex = take 800 (py_join [32] (py_split html))"
      using that by (simp add: dump_small_html_def Let_def min_def)
    have col: "collapsed (take 800 (py_join [32] (py_split html)))"
      by (rule collapsed_take) (rule compact_collapsed)
    have pre: "\<exists>rest. filter (\<lambda>c. \<not> is_space c) html
                  = filter (\<lambda>c. \<not> is_space c) (take 800 (py_join [32] (py_split html))) @ rest"
      using filter_take_prefix[of "\<lambda>c. \<not> is_space c" "py_join [32] (py_split html)" 800]
      by (simp add: compact_content)
    show ?thesis unfolding eq using col pre by simp
  qed
  show ?thesis using res len src by blast
qed

lemma script_lost_source:
  "py_join [32] (py_split [60, 104, 62, 10, 32, 32, 104, 105, 9, 32, 60, 47, 104, 62, 32])
     = ascii ''<h> hi </h>''"
  by (simp add: py_split_def is_space_def ascii_def)

theorem not_found_excerpt_witness:
  "dashboard_click script_lost world0 = (Inr (), emit DashClick world0)
   \<and> wait_url_contains script_lost = Inr True
   \<and> locate_final (final_rounds script_lost) = None
   \<and> fst (registrar_ponto cfg0 script_lost world0)
       = Inl (RuntimeError (not_found_message @ ascii ''<h> hi </h>''))
   \<and> collapsed (ascii ''<h> hi </h>'')"
proof -
  have a: "dashboard_click script_lost world0 = (Inr (), emit DashClick world0)"
    by (simp add: dashboard_click_def dash_btns_def script_lost_def script_ok_def Let_def)
  have b: "wait_url_contains script_lost = Inr True"
    by (simp add: wait_url_contains_def script_lost_def script_ok_def)
  have c: "locate_final (final_rounds script_lost) = None"
    by (simp add: script_lost_def script_ok_def first_match_all_false)
  have d: "page_source script_lost = Some [60, 104, 62, 10, 32, 32, 104, 105, 9, 32, 60, 47, 104, 62, 32]"
    by (simp add: script_lost_def script_ok_def)
  have e: "take 800 (ascii ''<h> hi </h>'') = ascii ''<h> hi </h>''"
    by (simp add: ascii_def)
  from not_found_excerpt[OF a b c, of cfg0] d
  have "fst (registrar_ponto cfg0 script_lost world0)
       = Inl (RuntimeError (not_found_message @ ascii ''<h> hi </h>''))
     \<and> collapsed (ascii ''<h> hi </h>'')"
    by (auto simp: script_lost_source e)
  with a b c show ?thesis by simp
qed

section \<open>Launching the browser: allocation, removal and retry\<close>

lemma alloc_dirs_eq:
  "alloc_dirs c w = (d, w') \<Longrightarrow>
     dirs_list d = dirs_at c (next_suffix w)
   \<and> w' = w\<lparr>existing := existing w @ dirs_at c (next_suffix w),
            next_suffix := next_suffix w + length (dirs_at c (next_suffix w)),
            events := events w @ map Mkdtemp (dirs_at c (next_suffix w))\<rparr>"
  by (auto simp: alloc_dirs_def mktemp_under_base_def dirs_at_def Let_def split: if_splits)

lemma removed_Cons:
  "removed s (d # ds) ps
     = removed s ds (if d \<in> set (rm_blocked s) then ps else removeAll d ps)"
  by (induction ps) (auto simp: removed_def)

lemma cleanup_eq:
  "cleanup_tmp_list s ds w =
     w\<lparr>existing := removed s ds (existing w), events := events w @ map Rmtree ds\<rparr>"
proof (induction ds arbitrary: w)
  case Nil
  show ?case by (simp add: removed_def)
next
  case (Cons d ds)
  show ?case
    by (simp add: Cons.IH rmtree_def emit_def Let_def removed_Cons)
qed

lemma dirs_at_disjoint: "length (dirs_at c n) \<le> k \<Longrightarrow> set (dirs_at c n) \<inter> set (dirs_at c (n + k)) = {}"
  by (auto simp: dirs_at_def split: if_splits)

lemma dirs_at_length: "length (dirs_at c n) = (if RHID_USE_USER_DATA c then 3 else 2)"
  by (simp add: dirs_at_def)

lemma alloc_dirs_ex:
  "\<exists>d. alloc_dirs c w = (d, alloc_world c w) \<and> dirs_list d = dirs_at c (next_suffix w)"
  using alloc_dirs_eq[of c w] unfolding alloc_world_def by (cases "alloc_dirs c w") auto

lemma build_attempts_last:
  assumes "dirs_list d = ds"
  shows "build_attempts c s [a] d le w =
     (case chrome_launch s a of
        None \<Rightarrow> (Inr \<lparr>tmp_dirs = ds\<rparr>, emit (ChromeLaunch a ds) w)
      | Some e \<Rightarrow>
          (Inl e,
           if is_WebDriverException e
           then emit (Sleep 800) (alloc_world c (cleanup_tmp_list s ds (emit (ChromeLaunch a ds) w)))
           else cleanup_tmp_list s ds (emit (ChromeLaunch a ds) w)))"
proof (cases "chrome_launch s a")
  case None
  then show ?thesis using assms by (simp add: Let_def)
next
  case (Some e)
  obtain d' where d': "alloc_dirs c (cleanup_tmp_list s ds (emit (ChromeLaunch a ds) w))
      = (d', alloc_world c (cleanup_tmp_list s ds (emit (ChromeLaunch a ds) w)))"
    using alloc_dirs_ex by blast
  show ?thesis using Some assms d' by (simp add: Let_def)
qed

lemma build_driver_unfold:
  "build_driver c s w =
     (let d1 = dirs_at c (next_suffix w);
          w1 = emit (ChromeLaunch 1 d1) (alloc_world c w)
      in case chrome_launch s 1 of
           None \<Rightarrow> (Inr \<lparr>tmp_dirs = d1\<rparr>, w1)
         | Some e1 \<Rightarrow>
             if is_WebDriverException e1
             then (let w2 = cleanup_tmp_list s d1 w1;
                       d2 = dirs_at c (next_suffix w2);
                       w3 = emit (ChromeLaunch 2 d2) (emit (Sleep 800) (alloc_world c w2))
                   in case chrome_launch s 2 of
                        None \<Rightarrow> (Inr \<lparr>tmp_dirs = d2\<rparr>, w3)
                      | Some e2 \<Rightarrow>
                          (Inl e2,
                           if is_WebDriverException e2
                           then emit (Sleep 800) (alloc_world c (cleanup_tmp_list s d2 w3))
                           else cleanup_tmp_list s d2 w3))
             else (Inl e1, cleanup_tmp_list s d1 w1))"
proof -
  obtain d where d: "alloc_dirs c w = (d, alloc_world c w)" "dirs_list d = dirs_at c (next_suffix w)"
    using alloc_dirs_ex by blast
  let ?d1 = "dirs_at c (next_suffix w)"
  let ?w1 = "emit (ChromeLaunch 1 ?d1) (alloc_world c w)"
  let ?w2 = "cleanup_tmp_list s ?d1 ?w1"
  obtain d' where d': "alloc_dirs c ?w2 = (d', alloc_world c ?w2)"
      "dirs_list d' = dirs_at c (next_suffix ?w2)"
    using alloc_dirs_ex by blast
  show ?thesis
  proof (cases "chrome_launch s 1")
    case None
    then show ?thesis using d by (simp add: build_driver_def Let_def)
  next
    case (Some e1)
    show ?thesis
    proof (cases "is_WebDriverException e1")
      case True
      have start: "build_driver c s w = build_attempts c s [1, 2] d None (alloc_world c w)"
        using d by (simp add: build_driver_def del: build_attempts.simps)
      have step: "build_attempts c s [1, 2] d None (alloc_world c w)
          = build_attempts c s [2] d' (Some e1) (emit (Sleep 800) (alloc_world c ?w2))"
      proof -
        have S0: "chrome_launch s (Suc 0) = Some e1" using Some by simp
        show ?thesis
          by (subst build_attempts.simps(2))
             (simp add: S0 True d d'[unfolded One_nat_def] Let_def del: build_attempts.simps)
      qed
      show ?thesis
        unfolding start step build_attempts_last[OF d'(2), of c s 2 "Some e1"]
        using Some True
        by (cases "chrome_launch s 2") (simp_all add: Let_def del: build_attempts.simps)
    next
      case False
      then show ?thesis using Some d by (simp add: build_driver_def Let_def)
    qed
  qed
qed

lemma filter_launch_Mkdtemp [simp]: "filter is_launch (map Mkdtemp ds) = []"
  by (induction ds) auto

lemma filter_launch_Rmtree [simp]: "filter is_launch (map Rmtree ds) = []"
  by (induction ds) auto

lemmas world_simps = cleanup_eq alloc_world_def emit_def dirs_at_length

text \<open>
  Claim C7. When the first attempt to start the browser fails with a
  \<open>WebDriverException\<close> (which includes \<open>SessionNotCreatedException\<close>),
  \<open>_build_driver\<close> removes the directories of that attempt, makes fresh ones, none of them
  among the old, pauses 0.8 seconds and tries a second time. If the second attempt succeeds
  the driver owns the fresh directories. If it fails, its exception is raised, so that
  \<open>run_rhid_punch\<close> fails with it and tears nothing down; in every case exactly two
  attempts are made.
\<close>

theorem launch_retry:
  assumes "chrome_launch s 1 = Some e1" and "is_WebDriverException e1"
  shows "let d1 = dirs_at c (next_suffix w);
             d2 = dirs_at c (next_suffix w + length d1);
             d3 = dirs_at c (next_suffix w + length d1 + length d2);
             first = map Mkdtemp d1 @ [ChromeLaunch 1 d1] @ map Rmtree d1
                       @ map Mkdtemp d2 @ [Sleep 800, ChromeLaunch 2 d2];
             r = fst (build_driver c s w);
             w' = snd (build_driver c s w)
         in set d1 \<inter> set d2 = {}
          \<and> (chrome_launch s 2 = None \<longrightarrow>
                r = Inr \<lparr>tmp_dirs = d2\<rparr> \<and> events w' = events w @ first)
          \<and> (\<forall>e2. chrome_launch s 2 = Some e2 \<longrightarrow>
                r = Inl e2
              \<and> events w' = events w @ first @ map Rmtree d2
                    @ (if is_WebDriverException e2 then map Mkdtemp d3 @ [Sleep 800] else [])
              \<and> run_rhid_punch c s trig w = (Inl (wrap_failure e2), w'))
          \<and> length (filter is_launch (drop (length (events w)) (events w'))) = 2"
proof -
  have disj: "set (dirs_at c (next_suffix w))
       \<inter> set (dirs_at c (next_suffix w + length (dirs_at c (next_suffix w)))) = {}"
    by (rule dirs_at_disjoint) simp
  show ?thesis
  proof (cases "chrome_launch s 2")
    case None
    then show ?thesis
      using assms disj
      by (simp add: build_driver_unfold Let_def world_simps)
  next
    case (Some e2)
    then show ?thesis
      using assms disj
      by (simp add: build_driver_unfold run_rhid_punch_def Let_def world_simps)
  qed
qed

theorem launch_retry_witness:
  "chrome_launch script_down 1 = Some (SessionNotCreatedException (ascii ''Message: session not created''))
   \<and> is_WebDriverException (SessionNotCreatedException (ascii ''Message: session not created''))
   \<and> fst (build_driver cfg0 script_down world0)
        = Inl (SessionNotCreatedException (ascii ''Message: session not created''))
   \<and> events (snd (build_driver cfg0 script_down world0))
        = [Mkdtemp (TmpDir (ascii ''data-'') 0), Mkdtemp (TmpDir (ascii ''cache-'') 1),
           ChromeLaunch 1 [TmpDir (ascii ''data-'') 0, TmpDir (ascii ''cache-'') 1],
           Rmtree (TmpDir (ascii ''data-'') 0), Rmtree (TmpDir (ascii ''cache-'') 1),
           Mkdtemp (TmpDir (ascii ''data-'') 2), Mkdtemp (TmpDir (ascii ''cache-'') 3),
           Sleep 800,
           ChromeLaunch 2 [TmpDir (ascii ''data-'') 2, TmpDir (ascii ''cache-'') 3],
           Rmtree (TmpDir (ascii ''data-'') 2), Rmtree (TmpDir (ascii ''cache-'') 3),
           Mkdtemp (TmpDir (ascii ''data-'') 4), Mkdtemp (TmpDir (ascii ''cache-'') 5),
           Sleep 800]
   \<and> chrome_launch script_retry 1 = Some (WebDriverException (ascii ''Message: chrome not reachable''))
   \<and> fst (build_driver cfg0 script_retry world0)
        = Inr \<lparr>tmp_dirs = [TmpDir (ascii ''data-'') 2, TmpDir (ascii ''cache-'') 3]\<rparr>"
proof -
  have a: "chrome_launch script_down 1 = Some (SessionNotCreatedException (ascii ''Message: session not created''))"
    by (simp add: script_down_def)
  have a2: "chrome_launch script_down 2 = Some (SessionNotCreatedException (ascii ''Message: session not created''))"
    by (simp add: script_down_def)
  have b: "is_WebDriverException (SessionNotCreatedException (ascii ''Message: session not created''))"
    by simp
  have c: "chrome_launch script_retry 1 = Some (WebDriverException (ascii ''Message: chrome not reachable''))"
    by (simp add: script_retry_def)
  have c2: "chrome_launch script_retry 2 = None"
    by (simp add: script_retry_def)
  have d: "is_WebDriverException (WebDriverException (ascii ''Message: chrome not reachable''))"
    by simp
  have u: "\<not> RHID_USE_USER_DATA cfg0" by (simp add: cfg0_def)
  have n: "next_suffix world0 = 0" "events world0 = []" by (simp_all add: world0_def)
  from launch_retry[OF a b, of cfg0 world0 default_trigger] launch_retry[OF c d, of cfg0 world0 default_trigger]
  show ?thesis using a c by (simp add: Let_def a2 c2 dirs_at_def u n)
qed

section \<open>What a flow adds to the world\<close>

lemma grows_refl: "grows P w w"
  unfolding grows_def by (rule exI[of _ "[]"]) simp

lemma grows_emit: "grows P w w1 \<Longrightarrow> P e \<Longrightarrow> grows P w (emit e w1)"
  unfolding grows_def emit_def
proof -
  assume "\<exists>evs. w1 = w\<lparr>events := events w @ evs\<rparr> \<and> (\<forall>e\<in>set evs. P e)" and pe: "P e"
  then obtain evs where evs: "w1 = w\<lparr>events := events w @ evs\<rparr>" "\<forall>e\<in>set evs. P e" by blast
  have "w1\<lparr>events := events w1 @ [e]\<rparr> = w\<lparr>events := events w @ (evs @ [e])\<rparr>"
    by (simp add: evs(1))
  moreover have "\<forall>x\<in>set (evs @ [e]). P x" using evs(2) pe by simp
  ultimately show "\<exists>evs. w1\<lparr>events := events w1 @ [e]\<rparr> = w\<lparr>events := events w @ evs\<rparr>
      \<and> (\<forall>e\<in>set evs. P e)" by blast
qed

lemma grows_trans: "grows P w w1 \<Longrightarrow> grows P w1 w2 \<Longrightarrow> grows P w w2"
proof -
  assume "grows P w w1" "grows P w1 w2"
  then obtain e1 e2 where a: "w1 = w\<lparr>events := events w @ e1\<rparr>" "\<forall>e\<in>set e1. P e"
      and b: "w2 = w1\<lparr>events := events w1 @ e2\<rparr>" "\<forall>e\<in>set e2. P e"
    unfolding grows_def by blast
  have "w2 = w\<lparr>events := events w @ (e1 @ e2)\<rparr>" by (simp add: a(1) b(1))
  moreover have "\<forall>e\<in>set (e1 @ e2). P e" using a(2) b(2) by auto
  ultimately show ?thesis unfolding grows_def by blast
qed

lemma flow_event_simps [simp]:
  "flow_event c (Navigate url)" "flow_event c (TypeText l txt)" "flow_event c LoginClick"
  "flow_event c DashClick" "flow_event c DashClickRetry" "flow_event c Screenshot"
  "flow_event c (FinalClick n) = (\<not> PUNCH_DRY_RUN c)"
  by (simp_all add: flow_event_def)

lemma login_submit_grows: "grows (flow_event c) w (snd (login_submit s email senha w))"
  by (auto simp: login_submit_def Let_def intro!: grows_emit grows_refl split: option.splits)

lemma login_form_grows: "grows (flow_event c) w (snd (login_form s email senha w))"
  using login_submit_grows[of c w s email senha]
  by (auto simp: login_form_def intro!: grows_refl split: sum.splits)

lemma grows_after_emit: "P e \<Longrightarrow> grows P (emit e w) w' \<Longrightarrow> grows P w w'"
  using grows_trans[OF grows_emit[OF grows_refl]] by blast

lemma login_grows: "grows (flow_event c) w (snd (login c' s email senha w))"
  using grows_after_emit[OF _ login_form_grows[of c _ s email senha], of "Navigate url" w for url]
  by (auto simp: login_def Let_def intro!: grows_emit grows_refl split: option.splits)

lemma screenshot_grows: "grows (flow_event c) w (screenshot c' w)"
  by (auto simp: screenshot_def intro!: grows_emit grows_refl)

lemma dashboard_click_grows: "grows (flow_event c) w (snd (dashboard_click s w))"
  by (auto simp: dashboard_click_def Let_def intro!: grows_emit grows_refl split: option.splits)

lemma confirmation_same: "snd (confirmation s w) = w"
  by (auto simp: confirmation_def split: option.splits)

lemma final_click_grows:
  "\<not> PUNCH_DRY_RUN c \<Longrightarrow> grows (flow_event c) w (snd (final_click c' s w))"
  by (auto simp: final_click_def Let_def confirmation_same screenshot_def
      intro!: grows_emit grows_refl split: option.splits)

lemma marcacao_grows: "grows (flow_event c) w (snd (marcacao c s w))"
  using final_click_grows[of c w c s] screenshot_grows[of c w c]
  by (auto simp: marcacao_def Let_def intro!: grows_refl split: option.splits)

lemma registrar_ponto_grows: "grows (flow_event c) w (snd (registrar_ponto c s w))"
proof (cases "dashboard_click s w")
  case (Pair r w1)
  have g1: "grows (flow_event c) w w1" using dashboard_click_grows[of c w s] Pair by simp
  show ?thesis
    using Pair g1 grows_trans[OF g1 marcacao_grows[of c w1 s]]
    by (auto simp: registrar_ponto_def split: sum.splits)
qed

lemma punch_flow_grows: "grows (flow_event c) w (snd (punch_flow c s trig w))"
proof (cases "login c s (getenv_or_empty (RHID_EMAIL c)) (getenv_or_empty (RHID_PASSWORD c)) w")
  case (Pair r w1)
  have g1: "grows (flow_event c) w w1" using login_grows[of c w c s] Pair by (metis snd_conv)
  have g2: "grows (flow_event c) w (snd (registrar_ponto c s w1))"
    by (rule grows_trans[OF g1 registrar_ponto_grows])
  show ?thesis
    using Pair g1 g2
    by (auto simp: punch_flow_def Let_def intro!: grows_refl split: sum.splits prod.splits)
qed

section \<open>Missing credentials\<close>

lemma teardown_eq:
  "teardown s drv w =
     w\<lparr>existing := removed s (tmp_dirs drv) (existing w),
       events := events w @ Quit # map Rmtree (tmp_dirs drv)\<rparr>"
  by (cases "quit_result s") (simp_all add: teardown_def Let_def cleanup_eq emit_def)

lemma run_with_driver:
  "build_driver c s w = (Inr drv, w1) \<Longrightarrow>
   run_rhid_punch c s trig w =
     (map_sum wrap_failure id (fst (punch_flow c s trig w1)),
      teardown s drv (snd (punch_flow c s trig w1)))"
  by (cases "punch_flow c s trig w1") (auto simp: run_rhid_punch_def split: sum.splits)

lemma run_without_driver:
  "build_driver c s w = (Inl e, w1) \<Longrightarrow> run_rhid_punch c s trig w = (Inl (wrap_failure e), w1)"
  by (simp add: run_rhid_punch_def)

text \<open>
  Claim C1, amended. With the e-mail address or the password missing, \<open>run_rhid_punch\<close>
  still starts the browser first. Once the driver exists the run fails with the
  configuration error, wrapped as every failure is, and the only thing done after the launch
  is the teardown of that driver: no page is opened. When the browser cannot be started, the
  failure of the launch is what is raised.
\<close>

theorem missing_credentials:
  assumes "getenv_or_empty (RHID_EMAIL c) = [] \<or> getenv_or_empty (RHID_PASSWORD c) = []"
  shows "(\<forall>drv w1. build_driver c s w = (Inr drv, w1) \<longrightarrow>
            run_rhid_punch c s trig w =
              (Inl (RuntimeError (ascii ''Falha ao registrar ponto: '' @ missing_credentials_message)),
               teardown s drv w1))
       \<and> (\<forall>e w1. build_driver c s w = (Inl e, w1) \<longrightarrow>
            run_rhid_punch c s trig w = (Inl (wrap_failure e), w1))"
proof -
  have pf: "punch_flow c s trig w1 = (Inl (RuntimeError missing_credentials_message), w1)" for w1
    using assms by (auto simp: punch_flow_def Let_def)
  show ?thesis
    using run_without_driver by (auto simp: run_with_driver pf wrap_failure_def)
qed

text \<open>
  Claim C1, as stated, fails: without an e-mail address the run ends in the configuration
  error, but by then two directories were made and the browser was launched, and they are
  torn down afterwards.
\<close>

theorem missing_credentials_counterexample:
  "getenv_or_empty (RHID_EMAIL cfg_nocred) = []
   \<and> fst (run_rhid_punch cfg_nocred script_ok default_trigger world0)
       = Inl (RuntimeError (ascii ''Falha ao registrar ponto: '' @ missing_credentials_message))
   \<and> events (snd (run_rhid_punch cfg_nocred script_ok default_trigger world0))
       = [Mkdtemp (TmpDir (ascii ''data-'') 0), Mkdtemp (TmpDir (ascii ''cache-'') 1),
          ChromeLaunch 1 [TmpDir (ascii ''data-'') 0, TmpDir (ascii ''cache-'') 1],
          Quit,
          Rmtree (TmpDir (ascii ''data-'') 0), Rmtree (TmpDir (ascii ''cache-'') 1)]"
  by (simp add: run_defs build_defs Let_def cfg_nocred_def cfg0_def script_ok_def world0_def)

theorem missing_credentials_witness:
  "(getenv_or_empty (RHID_EMAIL cfg_nocred) = [] \<or> getenv_or_empty (RHID_PASSWORD cfg_nocred) = [])
   \<and> build_driver cfg_nocred script_ok world0
       = (Inr \<lparr>tmp_dirs = [TmpDir (ascii ''data-'') 0, TmpDir (ascii ''cache-'') 1]\<rparr>,
          emit (ChromeLaunch 1 [TmpDir (ascii ''data-'') 0, TmpDir (ascii ''cache-'') 1])
            (alloc_world cfg_nocred world0))
   \<and> run_rhid_punch cfg_nocred script_ok default_trigger world0
       = (Inl (RuntimeError (ascii ''Falha ao registrar ponto: '' @ missing_credentials_message)),
          teardown script_ok \<lparr>tmp_dirs = [TmpDir (ascii ''data-'') 0, TmpDir (ascii ''cache-'') 1]\<rparr>
            (emit (ChromeLaunch 1 [TmpDir (ascii ''data-'') 0, TmpDir (ascii ''cache-'') 1])
              (alloc_world cfg_nocred world0)))
   \<and> build_driver cfg_nocred script_down world0
       = (Inl (SessionNotCreatedException (ascii ''Message: session not created'')),
          snd (build_driver cfg_nocred script_down world0))
   \<and> fst (run_rhid_punch cfg_nocred script_down default_trigger world0)
       = Inl (RuntimeError (ascii ''Falha ao registrar ponto: Message: session not created''))"
proof -
  have h: "getenv_or_empty (RHID_EMAIL cfg_nocred) = [] \<or> getenv_or_empty (RHID_PASSWORD cfg_nocred) = []"
    by (simp add: cfg_nocred_def getenv_or_empty_def)
  have b: "build_driver cfg_nocred script_ok world0
       = (Inr \<lparr>tmp_dirs = [TmpDir (ascii ''data-'') 0, TmpDir (ascii ''cache-'') 1]\<rparr>,
          emit (ChromeLaunch 1 [TmpDir (ascii ''data-'') 0, TmpDir (ascii ''cache-'') 1])
            (alloc_world cfg_nocred world0))"
    by (simp add: build_driver_unfold Let_def script_ok_def dirs_at_def cfg_nocred_def cfg0_def
        world0_def)
  have d: "build_driver cfg_nocred script_down world0
       = (Inl (SessionNotCreatedException (ascii ''Message: session not created'')),
          snd (build_driver cfg_nocred script_down world0))"
    by (simp add: build_driver_unfold Let_def script_down_def)
  have w: "wrap_failure (SessionNotCreatedException (ascii ''Message: session not created''))
      = RuntimeError (ascii ''Falha ao registrar ponto: Message: session not created'')"
    by (simp add: wrap_failure_def ascii_def)
  from missing_credentials[OF h, of script_ok world0 default_trigger]
       missing_credentials[OF h, of script_down world0 default_trigger] b d
  show ?thesis using h by (auto simp: w)
qed

section \<open>The dry run\<close>

lemma grows_events:
  "grows P w w' \<Longrightarrow> \<exists>evs. events w' = events w @ evs \<and> (\<forall>e\<in>set evs. P e)
      \<and> existing w' = existing w \<and> next_suffix w' = next_suffix w"
  unfolding grows_def by auto

lemma dry_not_punched: "dry_run_result \<noteq> punched_result"
  by (simp add: dry_run_result_def punched_result_def ascii_def)

lemma build_driver_events:
  "\<exists>evs. events (snd (build_driver c s w)) = events w @ evs \<and> (\<forall>e\<in>set evs. \<not> is_final_click e)"
  by (cases "chrome_launch s 1"; cases "chrome_launch s 2")
     (auto simp: build_driver_unfold Let_def world_simps)

lemma registrar_ponto_result:
  "PUNCH_DRY_RUN c \<Longrightarrow> fst (registrar_ponto c s w) = Inr r \<Longrightarrow> r = dry_run_result"
  by (auto simp: registrar_ponto_def marcacao_def Let_def
      split: prod.splits sum.splits option.splits if_splits)

text \<open>
  Claim C2. With the dry run on, \<open>_registrar_ponto\<close> adds only events that are not final
  clicks, whatever the portal does, and so does the whole of \<open>run_rhid_punch\<close>; a result
  it returns is the dry-run text, which differs from the text of a registered clock-in; and
  when the dashboard stage and the wait for the address return, the final button is found
  and becomes enabled, it returns that text with nothing done after the dashboard stage.
\<close>

theorem dry_run_never_clicks:
  assumes "PUNCH_DRY_RUN c"
  shows "(\<exists>evs. snd (registrar_ponto c s w) = w\<lparr>events := events w @ evs\<rparr>
              \<and> (\<forall>e\<in>set evs. \<not> is_final_click e))
       \<and> (\<forall>r. fst (registrar_ponto c s w) = Inr r \<longrightarrow> r = dry_run_result)
       \<and> (\<forall>u w1 ok l. dashboard_click s w = (Inr u, w1) \<and> wait_url_contains s = Inr ok
              \<and> locate_final (final_rounds s) = Some l \<and> enable_wait s = None \<longrightarrow>
            registrar_ponto c s w = (Inr dry_run_result, w1))
       \<and> (\<exists>evs. events (snd (run_rhid_punch c s trig w)) = events w @ evs
              \<and> (\<forall>e\<in>set evs. \<not> is_final_click e))
       \<and> dry_run_result \<noteq> punched_result"
proof (intro conjI)
  show "\<exists>evs. snd (registrar_ponto c s w) = w\<lparr>events := events w @ evs\<rparr>
              \<and> (\<forall>e\<in>set evs. \<not> is_final_click e)"
    using registrar_ponto_grows[of c w s] assms unfolding grows_def flow_event_def by blast
  show "\<forall>r. fst (registrar_ponto c s w) = Inr r \<longrightarrow> r = dry_run_result"
    using registrar_ponto_result[OF assms] by blast
  show "\<forall>u w1 ok l. dashboard_click s w = (Inr u, w1) \<and> wait_url_contains s = Inr ok
              \<and> locate_final (final_rounds s) = Some l \<and> enable_wait s = None \<longrightarrow>
            registrar_ponto c s w = (Inr dry_run_result, w1)"
    using assms by (auto simp: registrar_ponto_def marcacao_def)
  show "\<exists>evs. events (snd (run_rhid_punch c s trig w)) = events w @ evs
              \<and> (\<forall>e\<in>set evs. \<not> is_final_click e)"
  proof (cases "build_driver c s w")
    case (Pair r w1)
    obtain e1 where e1: "events w1 = events w @ e1" "\<forall>e\<in>set e1. \<not> is_final_click e"
      using build_driver_events[of c s w] Pair by auto
    show ?thesis
    proof (cases r)
      case (Inl e)
      then show ?thesis using Pair e1 by (auto simp: run_without_driver)
    next
      case (Inr drv)
      obtain e2 where e2: "events (snd (punch_flow c s trig w1)) = events w1 @ e2"
          "\<forall>e\<in>set e2. flow_event c e"
        using grows_events[OF punch_flow_grows[of c w1 s trig]] by blast
      have "events (snd (run_rhid_punch c s trig w))
          = events w @ (e1 @ e2 @ Quit # map Rmtree (tmp_dirs drv))"
        using Pair Inr by (simp add: run_with_driver teardown_eq e1 e2)
      moreover have "\<forall>e\<in>set (e1 @ e2 @ Quit # map Rmtree (tmp_dirs drv)). \<not> is_final_click e"
        using e1(2) e2(2) assms by (auto simp: flow_event_def)
      ultimately show ?thesis by blast
    qed
  qed
  show "dry_run_result \<noteq> punched_result" by (rule dry_not_punched)
qed

theorem dry_run_never_clicks_witness:
  "PUNCH_DRY_RUN cfg_dry
   \<and> dashboard_click script_ok world0 = (Inr (), emit DashClick world0)
   \<and> wait_url_contains script_ok = Inr True
   \<and> locate_final (final_rounds script_ok) = Some (hd final_locators)
   \<and> enable_wait script_ok = None
   \<and> registrar_ponto cfg_dry script_ok world0 = (Inr dry_run_result, emit DashClick world0)"
proof -
  have h: "PUNCH_DRY_RUN cfg_dry" by (simp add: cfg_dry_def)
  have a: "dashboard_click script_ok world0 = (Inr (), emit DashClick world0)"
    by (simp add: dashboard_click_def dash_btns_def script_ok_def Let_def)
  have b: "wait_url_contains script_ok = Inr True"
    by (simp add: wait_url_contains_def script_ok_def)
  have c: "locate_final (final_rounds script_ok) = Some (hd final_locators)"
    by (simp add: script_ok_def final_locators_def)
  have d: "enable_wait script_ok = None" by (simp add: script_ok_def)
  from dry_run_never_clicks[OF h, of script_ok world0] a b c d
  have "registrar_ponto cfg_dry script_ok world0 = (Inr dry_run_result, emit DashClick world0)"
    by blast
  with h a b c d show ?thesis by simp
qed

section \<open>Teardown\<close>

lemma set_removed:
  "set (removed s ds ps) = {p \<in> set ps. p \<notin> set ds \<or> p \<in> set (rm_blocked s)}"
  by (auto simp: removed_def)

lemma build_driver_success:
  assumes "build_driver c s w = (Inr drv, w1)"
  shows "(tmp_dirs drv = dirs_at c (next_suffix w)
          \<and> events w1 = events w @ map Mkdtemp (dirs_at c (next_suffix w))
                @ [ChromeLaunch 1 (dirs_at c (next_suffix w))]
          \<and> existing w1 = existing w @ dirs_at c (next_suffix w))
       \<or> (tmp_dirs drv = dirs_at c (next_suffix w + length (dirs_at c (next_suffix w)))
          \<and> events w1 = events w @ map Mkdtemp (dirs_at c (next_suffix w))
                @ [ChromeLaunch 1 (dirs_at c (next_suffix w))]
                @ map Rmtree (dirs_at c (next_suffix w))
                @ map Mkdtemp (dirs_at c (next_suffix w + length (dirs_at c (next_suffix w))))
                @ [Sleep 800,
                   ChromeLaunch 2 (dirs_at c (next_suffix w + length (dirs_at c (next_suffix w))))]
          \<and> existing w1 = removed s (dirs_at c (next_suffix w))
                  (existing w @ dirs_at c (next_suffix w))
                @ dirs_at c (next_suffix w + length (dirs_at c (next_suffix w))))"
  using assms
  by (cases "chrome_launch s 1"; cases "chrome_launch s 2")
     (auto simp: build_driver_unfold Let_def world_simps split: if_splits)

lemma page_event_not_dir:
  "\<forall>e\<in>set flow. page_event e \<Longrightarrow> Mkdtemp p \<notin> set flow \<and> Rmtree p \<notin> set flow"
  by auto

text \<open>
  Claim C6. When \<open>_build_driver\<close> returned a driver, whatever the flow does afterwards
  (it adds page events only) the run ends with \<open>quit\<close> and the removal of each of the
  driver's directories, and its outcome is the flow's outcome: neither \<open>quit_result\<close> nor
  \<open>rm_blocked\<close> enters it. Every directory made during the run has its removal among the
  run's events, and unless the system refuses to delete it, it no longer exists at the end.
\<close>

theorem teardown_always:
  assumes "build_driver c s w = (Inr drv, w1)"
  shows "\<exists>flow.
           events (snd (run_rhid_punch c s trig w))
             = events w1 @ flow @ Quit # map Rmtree (tmp_dirs drv)
         \<and> (\<forall>e\<in>set flow. page_event e)
         \<and> fst (run_rhid_punch c s trig w)
             = map_sum wrap_failure id (fst (punch_flow c s trig w1))
         \<and> (\<forall>p. Mkdtemp p \<in> set (drop (length (events w)) (events (snd (run_rhid_punch c s trig w))))
               \<longrightarrow> Rmtree p \<in> set (drop (length (events w)) (events (snd (run_rhid_punch c s trig w))))
                 \<and> (p \<notin> set (rm_blocked s)
                      \<longrightarrow> p \<notin> set (existing (snd (run_rhid_punch c s trig w)))))"
proof -
  let ?w2 = "snd (punch_flow c s trig w1)"
  let ?run = "run_rhid_punch c s trig w"
  obtain flow where flow: "events ?w2 = events w1 @ flow" "\<forall>e\<in>set flow. flow_event c e"
      "existing ?w2 = existing w1"
    using grows_events[OF punch_flow_grows[of c w1 s trig]] by blast
  have pe: "\<forall>e\<in>set flow. page_event e" using flow(2) by (simp add: flow_event_def)
  have nd: "Mkdtemp p \<notin> set flow" "Rmtree p \<notin> set flow" for p
    using page_event_not_dir[OF pe] by blast+
  have run: "?run = (map_sum wrap_failure id (fst (punch_flow c s trig w1)), teardown s drv ?w2)"
    by (rule run_with_driver[OF assms])
  have ev: "events (snd ?run) = events w1 @ flow @ Quit # map Rmtree (tmp_dirs drv)"
    by (simp add: run teardown_eq flow(1))
  have ex: "existing (snd ?run) = removed s (tmp_dirs drv) (existing w1)"
    by (simp add: run teardown_eq flow(3))
  let ?d1 = "dirs_at c (next_suffix w)"
  let ?d2 = "dirs_at c (next_suffix w + length ?d1)"
  have disj: "set ?d1 \<inter> set ?d2 = {}" by (rule dirs_at_disjoint) simp
  have dirs: "Mkdtemp p \<in> set (drop (length (events w)) (events (snd ?run)))
       \<longrightarrow> Rmtree p \<in> set (drop (length (events w)) (events (snd ?run)))
         \<and> (p \<notin> set (rm_blocked s) \<longrightarrow> p \<notin> set (existing (snd ?run)))" for p
    using build_driver_success[OF assms]
  proof (elim disjE conjE)
    assume a: "tmp_dirs drv = ?d1" "events w1 = events w @ map Mkdtemp ?d1 @ [ChromeLaunch 1 ?d1]"
       "existing w1 = existing w @ ?d1"
    show ?thesis using nd[of p] by (auto simp: ev ex a set_removed)
  next
    assume a: "tmp_dirs drv = ?d2"
       "events w1 = events w @ map Mkdtemp ?d1 @ [ChromeLaunch 1 ?d1] @ map Rmtree ?d1
            @ map Mkdtemp ?d2 @ [Sleep 800, ChromeLaunch 2 ?d2]"
       "existing w1 = removed s ?d1 (existing w @ ?d1) @ ?d2"
    show ?thesis using nd[of p] disj by (auto simp: ev ex a set_removed)
  qed
  show ?thesis using ev pe run dirs by (intro exI[of _ flow]) simp
qed

theorem teardown_always_witness:
  "build_driver cfg0 script_lost world0
     = (Inr \<lparr>tmp_dirs = [TmpDir (ascii ''data-'') 0, TmpDir (ascii ''cache-'') 1]\<rparr>,
        emit (ChromeLaunch 1 [TmpDir (ascii ''data-'') 0, TmpDir (ascii ''cache-'') 1])
          (alloc_world cfg0 world0))
   \<and> fst (run_rhid_punch cfg0 script_lost default_trigger world0)
       = Inl (RuntimeError (ascii ''Falha ao registrar ponto: '' @ not_found_message
                @ ascii ''<h> hi </h>''))
   \<and> Rmtree (TmpDir (ascii ''data-'') 0)
       \<in> set (events (snd (run_rhid_punch cfg0 script_lost default_trigger world0)))
   \<and> TmpDir (ascii ''data-'') 0
       \<notin> set (existing (snd (run_rhid_punch cfg0 script_lost default_trigger world0)))"
proof -
  let ?D = "\<lparr>tmp_dirs = [TmpDir (ascii ''data-'') 0, TmpDir (ascii ''cache-'') 1]\<rparr>"
  let ?W1 = "emit (ChromeLaunch 1 [TmpDir (ascii ''data-'') 0, TmpDir (ascii ''cache-'') 1])
          (alloc_world cfg0 world0)"
  let ?run = "run_rhid_punch cfg0 script_lost default_trigger world0"
  have b: "build_driver cfg0 script_lost world0 = (Inr ?D, ?W1)"
    by (simp add: build_driver_unfold Let_def script_lost_def script_ok_def dirs_at_def cfg0_def
        world0_def)
  have pf: "fst (punch_flow cfg0 script_lost default_trigger ?W1)
      = Inl (RuntimeError (not_found_message @ ascii ''<h> hi </h>''))"
    by (simp add: punch_flow_def getenv_or_empty_def login_defs registrar_defs Let_def
        dump_small_html_def script_lost_source
        cfg0_def script_lost_def script_ok_def first_match_all_false)
       (simp add: ascii_def)
  have e0: "events world0 = []" by (simp add: world0_def)
  have nb: "rm_blocked script_lost = []" by (simp add: script_lost_def script_ok_def)
  have w1: "Mkdtemp (TmpDir (ascii ''data-'') 0) \<in> set (events ?W1)"
    by (simp add: world_simps world0_def dirs_at_def)
  from teardown_always[OF b, of default_trigger]
  obtain flow where
      ev: "events (snd ?run) = events ?W1 @ flow @ Quit # map Rmtree (tmp_dirs ?D)"
    and r: "fst ?run = map_sum wrap_failure id (fst (punch_flow cfg0 script_lost default_trigger ?W1))"
    and dirs: "\<forall>p. Mkdtemp p \<in> set (drop (length (events world0)) (events (snd ?run)))
               \<longrightarrow> Rmtree p \<in> set (drop (length (events world0)) (events (snd ?run)))
                 \<and> (p \<notin> set (rm_blocked script_lost) \<longrightarrow> p \<notin> set (existing (snd ?run)))"
    by blast
  have "Mkdtemp (TmpDir (ascii ''data-'') 0) \<in> set (drop (length (events world0)) (events (snd ?run)))"
    using w1 by (simp add: ev e0)
  with dirs have "Rmtree (TmpDir (ascii ''data-'') 0) \<in> set (drop (length (events world0)) (events (snd ?run)))"
       and "TmpDir (ascii ''data-'') 0 \<notin> set (existing (snd ?run))"
    using nb by auto
  moreover have "fst ?run = Inl (RuntimeError (ascii ''Falha ao registrar ponto: '' @ not_found_message
                @ ascii ''<h> hi </h>''))"
    unfolding r pf by (simp add: wrap_failure_def)
  ultimately show ?thesis using b by (simp add: e0)
qed

end
